theory Spec2Isabelle
  imports Complex_Main "HOL-Library.Sublist"
begin

section \<open>PL peak extraction: the embedding\<close>

text \<open>
  The program is \<^verbatim>\<open>pl_peak_extraction.py\<close>: a batch loop over the spectrum files of a
  folder, \<^verbatim>\<open>analyze_single_pl_file\<close> for each of them, and a writer for the collected
  rows. Its module constants are the fields of \<open>config\<close>; what lies outside the file (the
  directory listing, the content of the files, the numeric reading of a field's text by
  pandas, the outcome of the two writers) is the record \<open>env\<close>.

  Numbers are values of a linearly ordered type \<open>'n\<close>: the program only compares the
  intensities that survive \<^verbatim>\<open>dropna\<close>, and those are never NaN.
\<close>

subsection \<open>Configuration and environment\<close>

record config =
  RAW_PL_DATA_FOLDER :: string
  OUTPUT_PEAK_DATA_FILE :: string
  OUTPUT_FILE_TYPE :: string
  PL_WAVELENGTH_COL_NAME :: string
  PL_INTENSITY_COL_NAME :: string

definition default_config :: config where
  "default_config =
     \<lparr>RAW_PL_DATA_FOLDER = ''PL_Spectra_Raw'',
      OUTPUT_PEAK_DATA_FILE = ''extracted_pl_peaks.csv'',
      OUTPUT_FILE_TYPE = ''csv'',
      PL_WAVELENGTH_COL_NAME = ''lambda [nm]'',
      PL_INTENSITY_COL_NAME = ''intensity [a.u.]''\<rparr>"

text \<open>
  The exceptions the program can meet. All of them are subclasses of Python's
  \<^verbatim>\<open>Exception\<close>; \<open>OtherError\<close> stands for any further one (a permission error, a
  decoding error, a directory in place of a file).
\<close>

datatype exn =
    FileNotFoundError
  | EmptyDataError
  | ParserError
  | ValueError string
  | KeyError
  | TypeError
  | ImportError
  | OtherError string

record 'n env =
  listdir :: "string \<Rightarrow> exn + string list"
  read_lines :: "string \<Rightarrow> exn + string list"
  csv_num :: "string \<Rightarrow> 'n option"
  csv_bool :: "string \<Rightarrow> 'n option"
  to_num :: "string \<Rightarrow> 'n option"
  to_csv_raises :: "string \<Rightarrow> exn option"
  to_excel_raises :: "string \<Rightarrow> exn option"

text \<open>
  \<open>listdir e d\<close> is \<^verbatim>\<open>os.listdir(d)\<close>; \<open>read_lines e p\<close> is the list of the lines of
  the file at \<open>p\<close> (without their line ends), or the exception that opening or reading it
  raises; \<open>to_csv_raises e p\<close> and \<open>to_excel_raises e p\<close> are the exception, if any, that
  writing a table to \<open>p\<close> raises.

  pandas reads a value in the text of a field at two places, and each reading is a
  parameter: \<open>csv_num e s\<close> is the number that the type inference of \<^verbatim>\<open>read_csv\<close>
  reads in \<open>s\<close>, \<open>None\<close> when \<open>s\<close> is no number for it; \<open>csv_bool e s\<close> is the
  value of the boolean that this inference reads in \<open>s\<close> (numpy orders booleans and
  formats them as the numbers 0 and 1), \<open>None\<close> when \<open>s\<close> is no boolean; \<open>to_num e s\<close>
  is the number that \<^verbatim>\<open>to_numeric(errors='coerce')\<close> reads in the string \<open>s\<close>,
  \<open>None\<close> when the coercion gives NaN. Which of them applies to a field depends on the
  column the field stands in (see \<open>infer\<close> below). The grammar of numbers is left open:
  every property below holds for any readings.

  The file is taken to hold the same lines when the program scans it for the header and
  when pandas reads it.
\<close>

subsection \<open>Strings\<close>

abbreviation TAB :: char where
  "TAB \<equiv> CHR 0x09"

abbreviation NL :: char where
  "NL \<equiv> CHR 0x0A"

abbreviation QUOTE :: char where
  "QUOTE \<equiv> CHR 0x22"

text \<open>Python's \<^verbatim>\<open>sub in s\<close> on strings.\<close>

fun py_in :: "string \<Rightarrow> string \<Rightarrow> bool" where
  "py_in sub [] = (sub = [])"
| "py_in sub (c # cs) = (prefix sub (c # cs) \<or> py_in sub cs)"

text \<open>\<^verbatim>\<open>s.endswith(suf)\<close>.\<close>

definition endswith :: "string \<Rightarrow> string \<Rightarrow> bool" where
  "endswith s suf = suffix suf s"

subsection \<open>The header scan (lines 48 to 56)\<close>

text \<open>
  The \<^verbatim>\<open>for ... else\<close> loop: \<open>n\<close> is \<^verbatim>\<open>skip_rows_count\<close>; \<open>None\<close> is the
  \<^verbatim>\<open>else\<close> branch, taken when the lines run out.
\<close>

fun find_header :: "config \<Rightarrow> string list \<Rightarrow> nat \<Rightarrow> nat option" where
  "find_header cfg [] n = None"
| "find_header cfg (l # ls) n =
     (if py_in (PL_WAVELENGTH_COL_NAME cfg) l \<and> py_in (PL_INTENSITY_COL_NAME cfg) l
      then Some n
      else find_header cfg ls (Suc n))"

definition header_not_found_message :: "config \<Rightarrow> string \<Rightarrow> string" where
  "header_not_found_message cfg file_path =
     ''Could not find data header '' @ [CHR 0x27] @ PL_WAVELENGTH_COL_NAME cfg
       @ [CHR 0x5C, CHR ''t''] @ PL_INTENSITY_COL_NAME cfg @ [CHR 0x27]
       @ '' in '' @ file_path"

subsection \<open>pandas: the tokenizer of \<^verbatim>\<open>read_csv\<close>\<close>

text \<open>
  \<^verbatim>\<open>read_csv(sep='\t', skiprows=k, names=[w, i], comment='#', header=None)\<close> reads the file
  with the tokenizer of the C engine: a machine that takes the text one character at a
  time. The states below are those of \<^verbatim>\<open>tokenizer.c\<close> that this call can reach (no
  escape character, no carriage return: Python has split the lines, so a line holds no
  line end of its own).

  \<open>file_lines\<close> counts the lines that are done; a record that starts while it is below
  \<open>skiprows\<close> is skipped. \<open>word\<close> is the field being read, \<open>line_words\<close> the fields of
  the record being read, \<open>table\<close> the records read so far, \<open>blanks\<close> the spaces at the
  start of a line that may still turn out to be empty.
\<close>

datatype tstate =
    START_RECORD
  | START_FIELD
  | IN_FIELD
  | IN_QUOTED_FIELD
  | QUOTE_IN_QUOTED_FIELD
  | EAT_COMMENT
  | EAT_LINE_COMMENT
  | WHITESPACE_LINE
  | START_FIELD_IN_SKIP_LINE
  | IN_FIELD_IN_SKIP_LINE
  | IN_QUOTED_FIELD_IN_SKIP_LINE
  | QUOTE_IN_QUOTED_FIELD_IN_SKIP_LINE

record parser =
  state :: tstate
  file_lines :: nat
  word :: string
  line_words :: "string list"
  table :: "string list list"
  blanks :: string

definition parser_init :: parser where
  "parser_init =
     \<lparr>state = START_RECORD, file_lines = 0, word = [], line_words = [], table = [],
      blanks = []\<rparr>"

definition PUSH_CHAR :: "char \<Rightarrow> parser \<Rightarrow> parser" where
  "PUSH_CHAR c p = p\<lparr>word := word p @ [c]\<rparr>"

definition END_FIELD :: "parser \<Rightarrow> parser" where
  "END_FIELD p = p\<lparr>line_words := line_words p @ [word p], word := []\<rparr>"

text \<open>The end of a record that is kept, and the end of a line that is skipped.\<close>

definition END_LINE :: "parser \<Rightarrow> parser" where
  "END_LINE p =
     p\<lparr>table := table p @ [line_words p], line_words := [],
       file_lines := Suc (file_lines p), state := START_RECORD\<rparr>"

definition END_SKIPPED_LINE :: "parser \<Rightarrow> parser" where
  "END_SKIPPED_LINE p = p\<lparr>file_lines := Suc (file_lines p), state := START_RECORD\<rparr>"

text \<open>
  The states in which a field is read. A quote opens a quoted field only at the start of
  a field; inside a quoted field a tab, the comment character and a line end are
  characters of the field; a doubled quote is one quote of the field.
\<close>

definition in_START_FIELD :: "parser \<Rightarrow> char \<Rightarrow> parser" where
  "in_START_FIELD p c =
     (if c = NL then END_LINE (END_FIELD p)
      else if c = QUOTE then p\<lparr>state := IN_QUOTED_FIELD\<rparr>
      else if c = TAB then (END_FIELD p)\<lparr>state := START_FIELD\<rparr>
      else if c = CHR ''#'' then (END_FIELD p)\<lparr>state := EAT_COMMENT\<rparr>
      else (PUSH_CHAR c p)\<lparr>state := IN_FIELD\<rparr>)"

definition in_IN_FIELD :: "parser \<Rightarrow> char \<Rightarrow> parser" where
  "in_IN_FIELD p c =
     (if c = NL then END_LINE (END_FIELD p)
      else if c = TAB then (END_FIELD p)\<lparr>state := START_FIELD\<rparr>
      else if c = CHR ''#'' then (END_FIELD p)\<lparr>state := EAT_COMMENT\<rparr>
      else (PUSH_CHAR c p)\<lparr>state := IN_FIELD\<rparr>)"

text \<open>
  The start of a record: a skipped line, an empty line, a comment line, a line that
  starts with a space (which is dropped when it holds nothing but spaces), or the first
  field.
\<close>

definition in_START_RECORD :: "nat \<Rightarrow> parser \<Rightarrow> char \<Rightarrow> parser" where
  "in_START_RECORD skiprows p c =
     (if file_lines p < skiprows then
        (if c = QUOTE then p\<lparr>state := IN_QUOTED_FIELD_IN_SKIP_LINE\<rparr>
         else if c = NL then END_SKIPPED_LINE p
         else p\<lparr>state := IN_FIELD_IN_SKIP_LINE\<rparr>)
      else if c = NL then p\<lparr>file_lines := Suc (file_lines p)\<rparr>
      else if c = CHR ''#'' then p\<lparr>state := EAT_LINE_COMMENT\<rparr>
      else if c = CHR '' '' then p\<lparr>state := WHITESPACE_LINE, blanks := [c]\<rparr>
      else in_START_FIELD p c)"

definition step :: "nat \<Rightarrow> parser \<Rightarrow> char \<Rightarrow> parser" where
  "step skiprows p c =
     (case state p of
        START_RECORD \<Rightarrow> in_START_RECORD skiprows p c
      | START_FIELD \<Rightarrow> in_START_FIELD p c
      | IN_FIELD \<Rightarrow> in_IN_FIELD p c
      | IN_QUOTED_FIELD \<Rightarrow>
          (if c = QUOTE then p\<lparr>state := QUOTE_IN_QUOTED_FIELD\<rparr> else PUSH_CHAR c p)
      | QUOTE_IN_QUOTED_FIELD \<Rightarrow>
          (if c = QUOTE then (PUSH_CHAR c p)\<lparr>state := IN_QUOTED_FIELD\<rparr>
           else if c = TAB then (END_FIELD p)\<lparr>state := START_FIELD\<rparr>
           else if c = NL then END_LINE (END_FIELD p)
           else (PUSH_CHAR c p)\<lparr>state := IN_FIELD\<rparr>)
      | EAT_COMMENT \<Rightarrow> (if c = NL then END_LINE p else p)
      | EAT_LINE_COMMENT \<Rightarrow>
          (if c = NL then p\<lparr>file_lines := Suc (file_lines p), state := START_RECORD\<rparr> else p)
      | WHITESPACE_LINE \<Rightarrow>
          (if c = NL
             then p\<lparr>file_lines := Suc (file_lines p), state := START_RECORD, blanks := []\<rparr>
           else if c = CHR '' '' then p\<lparr>blanks := blanks p @ [c]\<rparr>
           else in_IN_FIELD (p\<lparr>word := blanks p, blanks := []\<rparr>) c)
      | START_FIELD_IN_SKIP_LINE \<Rightarrow>
          (if c = NL then END_SKIPPED_LINE p
           else if c = QUOTE then p\<lparr>state := IN_QUOTED_FIELD_IN_SKIP_LINE\<rparr>
           else if c = TAB then p
           else p\<lparr>state := IN_FIELD_IN_SKIP_LINE\<rparr>)
      | IN_FIELD_IN_SKIP_LINE \<Rightarrow>
          (if c = NL then END_SKIPPED_LINE p
           else if c = TAB then p\<lparr>state := START_FIELD_IN_SKIP_LINE\<rparr>
           else p)
      | IN_QUOTED_FIELD_IN_SKIP_LINE \<Rightarrow>
          (if c = QUOTE then p\<lparr>state := QUOTE_IN_QUOTED_FIELD_IN_SKIP_LINE\<rparr> else p)
      | QUOTE_IN_QUOTED_FIELD_IN_SKIP_LINE \<Rightarrow>
          (if c = NL then END_SKIPPED_LINE p
           else if c = QUOTE then p\<lparr>state := IN_QUOTED_FIELD_IN_SKIP_LINE\<rparr>
           else if c = TAB then p\<lparr>state := START_FIELD_IN_SKIP_LINE\<rparr>
           else p\<lparr>state := IN_FIELD_IN_SKIP_LINE\<rparr>))"

text \<open>
  The end of the text: a quoted field that is still open is the parser error
  \<^verbatim>\<open>EOF inside string\<close>; a record that is under way is ended.
\<close>

definition handle_eof :: "parser \<Rightarrow> exn + string list list" where
  "handle_eof p =
     (case state p of
        IN_QUOTED_FIELD \<Rightarrow> Inl ParserError
      | IN_FIELD \<Rightarrow> Inr (table (END_LINE (END_FIELD p)))
      | START_FIELD \<Rightarrow> Inr (table (END_LINE (END_FIELD p)))
      | QUOTE_IN_QUOTED_FIELD \<Rightarrow> Inr (table (END_LINE (END_FIELD p)))
      | EAT_COMMENT \<Rightarrow> Inr (table (END_LINE p))
      | _ \<Rightarrow> Inr (table p))"

text \<open>The text of the file: every line with its line end.\<close>

definition file_text :: "string list \<Rightarrow> string" where
  "file_text lines = concat (map (\<lambda>l. l @ [NL]) lines)"

definition tokenize :: "string list \<Rightarrow> nat \<Rightarrow> exn + string list list" where
  "tokenize lines skiprows = handle_eof (foldl (step skiprows) parser_init (file_text lines))"

subsection \<open>pandas: \<^verbatim>\<open>read_csv\<close>, \<^verbatim>\<open>to_numeric\<close>, \<^verbatim>\<open>dropna\<close>, \<^verbatim>\<open>idxmax\<close>, \<^verbatim>\<open>loc\<close>\<close>

text \<open>
  The cells of a frame: a number, a string, or NaN. The spellings that \<^verbatim>\<open>read_csv\<close>
  takes for a missing value are its documented default list, the empty field among them.
\<close>

datatype 'n cellv = NaN | Number 'n | Text string

definition na_values :: "string list" where
  "na_values =
     ['''', ''#N/A'', ''#N/A N/A'', ''#NA'', ''-1.#IND'', ''-1.#QNAN'', ''-NaN'', ''-nan'',
      ''1.#IND'', ''1.#QNAN'', ''<NA>'', ''N/A'', ''NA'', ''NULL'', ''NaN'', ''None'',
      ''n/a'', ''nan'', ''null'']"

text \<open>
  The type inference of a column tries the types in turn: the column is numeric when
  every field of it is a missing value or a number for \<open>csv_num\<close>, and then its cells
  are these numbers; it is boolean when every field is a missing value or a boolean;
  otherwise it is a column of objects and its cells are the strings of the file.
\<close>

definition is_numeric_column :: "'n env \<Rightarrow> string list \<Rightarrow> bool" where
  "is_numeric_column e col = list_all (\<lambda>s. s \<in> set na_values \<or> csv_num e s \<noteq> None) col"

definition is_bool_column :: "'n env \<Rightarrow> string list \<Rightarrow> bool" where
  "is_bool_column e col = list_all (\<lambda>s. s \<in> set na_values \<or> csv_bool e s \<noteq> None) col"

definition infer :: "'n env \<Rightarrow> string list \<Rightarrow> 'n cellv list" where
  "infer e col =
     (if is_numeric_column e col
      then map (\<lambda>s. if s \<in> set na_values then NaN
                    else (case csv_num e s of None \<Rightarrow> NaN | Some v \<Rightarrow> Number v)) col
      else if is_bool_column e col
      then map (\<lambda>s. if s \<in> set na_values then NaN
                    else (case csv_bool e s of None \<Rightarrow> NaN | Some v \<Rightarrow> Number v)) col
      else map (\<lambda>s. if s \<in> set na_values then NaN else Text s) col)"

text \<open>
  The index labels of the rows: their positions, or, when the file has more columns than
  there are names, the cells of the leading columns.
\<close>

datatype 'n label = Position nat | Key "'n cellv list"

type_synonym ('n, 'a, 'b) frame = "('n label \<times> 'a \<times> 'b) list"

text \<open>
  The table has as many columns as the first record has fields, and at least the two
  that are named; a later record with more fields is the parser error
  \<^verbatim>\<open>Expected n fields, saw m\<close>; a record with fewer fields is filled with empty ones. The
  two named columns are the last two; the columns before them, when there are any, give
  the index labels.
\<close>

definition table_width :: "string list list \<Rightarrow> nat" where
  "table_width tbl = (case tbl of [] \<Rightarrow> 2 | r # rs \<Rightarrow> max (length r) 2)"

definition pad :: "nat \<Rightarrow> string list \<Rightarrow> string list" where
  "pad n r = r @ replicate (n - length r) []"

definition column :: "string list list \<Rightarrow> nat \<Rightarrow> string list" where
  "column tbl j = map (\<lambda>r. r ! j) tbl"

definition index_labels :: "'n env \<Rightarrow> string list list \<Rightarrow> nat \<Rightarrow> 'n label list" where
  "index_labels e tbl leading_cols =
     (if leading_cols = 0 then map Position [0..<length tbl]
      else map (\<lambda>i. Key (map (\<lambda>j. infer e (column tbl j) ! i) [0..<leading_cols]))
             [0..<length tbl])"

definition read_csv ::
  "'n env \<Rightarrow> string list \<Rightarrow> nat \<Rightarrow> exn + ('n, 'n cellv, 'n cellv) frame" where
  "read_csv e lines skiprows =
     (case tokenize lines skiprows of
        Inl x \<Rightarrow> Inl x
      | Inr tbl \<Rightarrow>
          (let width = table_width tbl in
           if list_ex (\<lambda>r. width < length r) tbl then Inl ParserError
           else
             (let padded = map (pad width) tbl;
                  leading_cols = width - 2
              in Inr (zip (index_labels e padded leading_cols)
                        (zip (infer e (column padded leading_cols))
                             (infer e (column padded (Suc leading_cols))))))))"

text \<open>
  \<^verbatim>\<open>pd.to_numeric(column, errors='coerce')\<close> on one cell: a number and NaN stay, a string
  becomes the number \<open>to_num\<close> reads in it, or NaN.
\<close>

definition to_numeric :: "'n env \<Rightarrow> 'n cellv \<Rightarrow> 'n cellv" where
  "to_numeric e c =
     (case c of
        Text s \<Rightarrow> (case to_num e s of None \<Rightarrow> NaN | Some v \<Rightarrow> Number v)
      | _ \<Rightarrow> c)"

text \<open>The two column assignments of lines 68 and 69.\<close>

definition to_numeric_wavelength ::
  "'n env \<Rightarrow> ('n, 'n cellv, 'b) frame \<Rightarrow> ('n, 'n cellv, 'b) frame" where
  "to_numeric_wavelength e df = map (\<lambda>(l, w, i). (l, to_numeric e w, i)) df"

definition to_numeric_intensity ::
  "'n env \<Rightarrow> ('n, 'a, 'n cellv) frame \<Rightarrow> ('n, 'a, 'n cellv) frame" where
  "to_numeric_intensity e df = map (\<lambda>(l, w, i). (l, w, to_numeric e i)) df"

text \<open>
  \<^verbatim>\<open>dropna(subset=[w, i])\<close>: the rows with a number in both columns, with their labels.
\<close>

fun dropna :: "('n, 'n cellv, 'n cellv) frame \<Rightarrow> ('n, 'n, 'n) frame" where
  "dropna [] = []"
| "dropna ((l, Number w, Number i) # rest) = (l, w, i) # dropna rest"
| "dropna ((l, w, i) # rest) = dropna rest"

text \<open>
  \<^verbatim>\<open>idxmax\<close> on the intensity column: the scan keeps the best row so far and replaces it
  only by a strictly greater value; on an empty column it raises.
\<close>

fun idxmax_scan :: "'n label \<times> 'n::linorder \<Rightarrow> ('n, 'n, 'n) frame \<Rightarrow> 'n label" where
  "idxmax_scan (bl, bv) [] = bl"
| "idxmax_scan (bl, bv) ((l, w, i) # rest) =
     (if bv < i then idxmax_scan (l, i) rest else idxmax_scan (bl, bv) rest)"

fun idxmax :: "('n::linorder, 'n, 'n) frame \<Rightarrow> exn + 'n label" where
  "idxmax [] = Inl (ValueError ''attempt to get argmax of an empty sequence'')"
| "idxmax ((l, w, i) # rest) = Inr (idxmax_scan (l, i) rest)"

text \<open>
  \<^verbatim>\<open>df.loc[label, column]\<close>: the value of the column in the row of that label when the
  label stands at one row; the series of the values when it stands at several; a key error
  when it stands at none. \<open>col\<close> selects the column.
\<close>

datatype 'n val = Scalar 'n | Series "'n list"

definition loc ::
  "('n, 'n, 'n) frame \<Rightarrow> 'n label \<Rightarrow> ('n \<times> 'n \<Rightarrow> 'n) \<Rightarrow> exn + 'n val" where
  "loc df label col =
     (case filter (\<lambda>r. fst r = label) df of
        [] \<Rightarrow> Inl KeyError
      | [r] \<Rightarrow> Inr (Scalar (col (snd r)))
      | rs \<Rightarrow> Inr (Series (map (\<lambda>r. col (snd r)) rs)))"

subsection \<open>\<^verbatim>\<open>analyze_single_pl_file\<close> (lines 41 to 95)\<close>

text \<open>
  What the program prints, one constructor for each \<^verbatim>\<open>print\<close> that depends on the
  run; the banner of line 100 is left out, and the closing lines 141 to 149, which are
  printed together, are the one message \<open>Extraction_complete\<close>.
\<close>

datatype 'n msg =
    Scanning string
  | Processing string string
  | Warning_no_data string
  | Error_file_not_found string
  | Error_empty string
  | Error_processing string exn
  | Extracted_peak 'n 'n
  | Failed_to_extract string
  | No_peaks_extracted
  | Error_openpyxl
  | Saved_to_csv_instead string
  | Extraction_complete nat string

text \<open>
  The frame the program holds at line 74, after reading, coercion and \<^verbatim>\<open>dropna\<close>; the
  exceptions of lines 49 to 72 are the \<open>Inl\<close> results.
\<close>

definition parse_spectrum ::
  "config \<Rightarrow> 'n env \<Rightarrow> string \<Rightarrow> exn + ('n, 'n, 'n) frame" where
  "parse_spectrum cfg e file_path =
     (case read_lines e file_path of
        Inl x \<Rightarrow> Inl x
      | Inr lines \<Rightarrow>
          (case find_header cfg lines 0 of
             None \<Rightarrow> Inl (ValueError (header_not_found_message cfg file_path))
           | Some skip_rows_count \<Rightarrow>
               (case read_csv e lines skip_rows_count of
                  Inl x \<Rightarrow> Inl x
                | Inr pl_spectrum_df \<Rightarrow>
                    Inr (dropna (to_numeric_intensity e
                                  (to_numeric_wavelength e pl_spectrum_df))))))"

text \<open>The body of the \<^verbatim>\<open>try\<close>: the returned pair and what it printed.\<close>

definition analyze_body ::
  "config \<Rightarrow> ('n::linorder) env \<Rightarrow> string \<Rightarrow>
   exn + (('n val option \<times> 'n val option) \<times> 'n msg list)" where
  "analyze_body cfg e file_path =
     (case parse_spectrum cfg e file_path of
        Inl x \<Rightarrow> Inl x
      | Inr pl_spectrum_df \<Rightarrow>
          if pl_spectrum_df = [] then Inr ((None, None), [Warning_no_data file_path])
          else
            (case idxmax pl_spectrum_df of
               Inl x \<Rightarrow> Inl x
             | Inr max_intensity_idx \<Rightarrow>
                 (case loc pl_spectrum_df max_intensity_idx fst of
                    Inl x \<Rightarrow> Inl x
                  | Inr peak_w \<Rightarrow>
                      (case loc pl_spectrum_df max_intensity_idx snd of
                         Inl x \<Rightarrow> Inl x
                       | Inr peak_i \<Rightarrow> Inr ((Some peak_w, Some peak_i), [])))))"

text \<open>The three handlers, in the order of the source.\<close>

fun analyze_handler ::
  "string \<Rightarrow> exn \<Rightarrow> ('n val option \<times> 'n val option) \<times> 'n msg list" where
  "analyze_handler file_path FileNotFoundError =
     ((None, None), [Error_file_not_found file_path])"
| "analyze_handler file_path EmptyDataError = ((None, None), [Error_empty file_path])"
| "analyze_handler file_path x = ((None, None), [Error_processing file_path x])"

definition analyze_single_pl_file ::
  "config \<Rightarrow> ('n::linorder) env \<Rightarrow> string \<Rightarrow>
   ('n val option \<times> 'n val option) \<times> 'n msg list" where
  "analyze_single_pl_file cfg e file_path =
     (case analyze_body cfg e file_path of
        Inl x \<Rightarrow> analyze_handler file_path x
      | Inr r \<Rightarrow> r)"

subsection \<open>The standard library: \<^verbatim>\<open>os.path.splitext\<close>, \<^verbatim>\<open>os.path.join\<close>, \<^verbatim>\<open>str.replace\<close>\<close>

text \<open>\<^verbatim>\<open>s.rfind(c)\<close>: the last position of \<open>c\<close>, or \<open>-1\<close>.\<close>

definition rfind :: "string \<Rightarrow> char \<Rightarrow> int" where
  "rfind s c =
     (if c \<in> set s
      then int (length s) - 1 - int (length (takeWhile (\<lambda>x. x \<noteq> c) (rev s)))
      else - 1)"

text \<open>
  \<^verbatim>\<open>posixpath.splitext\<close>: the split is at the last dot when that dot comes after the last
  separator and some character between the separator and the dot is not a dot (the
  \<^verbatim>\<open>while\<close> loop that skips the leading dots).
\<close>

definition splitext :: "string \<Rightarrow> string \<times> string" where
  "splitext p =
     (let sepIndex = rfind p (CHR ''/'');
          dotIndex = rfind p (CHR ''.'')
      in if dotIndex > sepIndex \<and>
            list_ex (\<lambda>c. c \<noteq> CHR ''.'')
              (take (nat (dotIndex - (sepIndex + 1))) (drop (nat (sepIndex + 1)) p))
         then (take (nat dotIndex) p, drop (nat dotIndex) p)
         else (p, []))"

text \<open>\<^verbatim>\<open>posixpath.join(a, b)\<close>.\<close>

definition os_path_join :: "string \<Rightarrow> string \<Rightarrow> string" where
  "os_path_join a b =
     (if prefix ''/'' b then b
      else if a = [] \<or> endswith a ''/'' then a @ b
      else a @ ''/'' @ b)"

text \<open>
  \<^verbatim>\<open>s.replace(old, new)\<close>: every occurrence of \<open>old\<close>, from the left, without overlap; for
  an empty \<open>old\<close> Python puts \<open>new\<close> before every character and at the end.
\<close>

function py_replace :: "string \<Rightarrow> string \<Rightarrow> string \<Rightarrow> string" where
  "py_replace s old new =
     (if old = [] then concat (map (\<lambda>c. new @ [c]) s) @ new
      else if s = [] then []
      else if prefix old s then new @ py_replace (drop (length old) s) old new
      else hd s # py_replace (tl s) old new)"
  by pat_completeness auto
termination
  by (relation "measure (\<lambda>(s, old, new). length s)") auto

declare py_replace.simps [simp del]

subsection \<open>\<^verbatim>\<open>get_sample_id_from_filename\<close> (lines 29 to 38)\<close>

definition get_sample_id_from_filename :: "string \<Rightarrow> string" where
  "get_sample_id_from_filename filename = (let base_name = fst (splitext filename) in base_name)"

subsection \<open>The main program (lines 99 to 149)\<close>

datatype 'n cell = Str string | Num 'n

text \<open>The dictionary appended at lines 115 to 119, with its keys in their order.\<close>

definition peak_dict :: "string \<Rightarrow> 'n \<Rightarrow> 'n \<Rightarrow> (string \<times> 'n cell) list" where
  "peak_dict sample_id peak_w peak_i =
     [(''QW_Sample'', Str sample_id),
      (''PL_Peak_Wavelength_nm'', Num peak_w),
      (''PL_Peak_Intensity_au'', Num peak_i)]"

text \<open>
  The format specifications \<^verbatim>\<open>:.2f\<close> and \<^verbatim>\<open>:.4f\<close> of line 120: a number is formatted; a
  series has no such format, and the f-string raises \<^verbatim>\<open>TypeError\<close>.
\<close>

definition format_float :: "'n val \<Rightarrow> exn + 'n" where
  "format_float v = (case v of Scalar x \<Rightarrow> Inr x | Series xs \<Rightarrow> Inl TypeError)"

text \<open>
  One turn of the loop of line 106: the state is \<^verbatim>\<open>processed_peaks_data\<close> and what has
  been printed so far. Line 120 stands in no \<^verbatim>\<open>try\<close>: the exception it raises ends the
  run, and the turn then gives the exception and what was printed before it (the
  dictionary that line 115 appended is lost with the run).
\<close>

definition process_entry ::
  "config \<Rightarrow> ('n::linorder) env \<Rightarrow> string \<Rightarrow>
   (string \<times> 'n cell) list list \<times> 'n msg list \<Rightarrow>
   (exn \<times> 'n msg list) + ((string \<times> 'n cell) list list \<times> 'n msg list)" where
  "process_entry cfg e filename st =
     (case st of (processed_peaks_data, out) \<Rightarrow>
        if endswith filename ''.csv'' then
          (let sample_id = get_sample_id_from_filename filename;
               file_path = os_path_join (RAW_PL_DATA_FOLDER cfg) filename
           in case analyze_single_pl_file cfg e file_path of
                ((Some peak_w, Some peak_i), msgs) \<Rightarrow>
                  (case format_float peak_w of
                     Inl x \<Rightarrow> Inl (x, out @ [Processing filename sample_id] @ msgs)
                   | Inr w \<Rightarrow>
                       (case format_float peak_i of
                          Inl x \<Rightarrow> Inl (x, out @ [Processing filename sample_id] @ msgs)
                        | Inr i \<Rightarrow>
                            Inr (processed_peaks_data @ [peak_dict sample_id w i],
                                 out @ [Processing filename sample_id] @ msgs
                                   @ [Extracted_peak w i])))
              | (_, msgs) \<Rightarrow>
                  Inr (processed_peaks_data,
                       out @ [Processing filename sample_id] @ msgs
                         @ [Failed_to_extract sample_id]))
        else Inr (processed_peaks_data, out))"

fun main_loop ::
  "config \<Rightarrow> ('n::linorder) env \<Rightarrow> string list \<Rightarrow>
   (string \<times> 'n cell) list list \<times> 'n msg list \<Rightarrow>
   (exn \<times> 'n msg list) + ((string \<times> 'n cell) list list \<times> 'n msg list)" where
  "main_loop cfg e [] st = Inr st"
| "main_loop cfg e (filename # rest) st =
     (case process_entry cfg e filename st of
        Inl x \<Rightarrow> Inl x
      | Inr st' \<Rightarrow> main_loop cfg e rest st')"

text \<open>
  \<^verbatim>\<open>pd.DataFrame(list_of_dicts)\<close>: the columns are the keys in the order in which they are
  first seen; a row holds, for each column, the value of its dictionary (NaN, here \<open>None\<close>,
  for a missing key).
\<close>

record 'n table =
  columns :: "string list"
  records :: "'n cell option list list"

definition DataFrame :: "(string \<times> 'n cell) list list \<Rightarrow> 'n table" where
  "DataFrame ds =
     (let cols = rev (remdups (rev (concat (map (map fst) ds))))
      in \<lparr>columns = cols, records = map (\<lambda>d. map (map_of d) cols) ds\<rparr>)"

datatype 'n write_call =
    To_csv string "'n table"
  | To_excel string "'n table" string

text \<open>
  A run of the program: what it printed, the calls of the writers it made, and the
  exception that ended it, if one did.
\<close>

record 'n outcome =
  printed :: "'n msg list"
  write_calls :: "'n write_call list"
  raised :: "exn option"

definition final_report :: "config \<Rightarrow> nat \<Rightarrow> 'n msg list" where
  "final_report cfg n = [Extraction_complete n (OUTPUT_PEAK_DATA_FILE cfg)]"

definition main :: "config \<Rightarrow> ('n::linorder) env \<Rightarrow> 'n outcome" where
  "main cfg e =
     (let out0 = [Scanning (RAW_PL_DATA_FOLDER cfg)] in
      case listdir e (RAW_PL_DATA_FOLDER cfg) of
        Inl x \<Rightarrow> \<lparr>printed = out0, write_calls = [], raised = Some x\<rparr>
      | Inr names \<Rightarrow>
          (case main_loop cfg e names ([], out0) of
             Inl (x, out) \<Rightarrow> \<lparr>printed = out, write_calls = [], raised = Some x\<rparr>
           | Inr (processed_peaks_data, out) \<Rightarrow>
             if processed_peaks_data = [] then
               \<lparr>printed = out @ [No_peaks_extracted], write_calls = [], raised = None\<rparr>
             else
               (let output_df = DataFrame processed_peaks_data;
                    done = final_report cfg (length processed_peaks_data)
                in if OUTPUT_FILE_TYPE cfg = ''csv'' then
                     (case to_csv_raises e (OUTPUT_PEAK_DATA_FILE cfg) of
                        Some x \<Rightarrow>
                          \<lparr>printed = out,
                           write_calls = [To_csv (OUTPUT_PEAK_DATA_FILE cfg) output_df],
                           raised = Some x\<rparr>
                      | None \<Rightarrow>
                          \<lparr>printed = out @ done,
                           write_calls = [To_csv (OUTPUT_PEAK_DATA_FILE cfg) output_df],
                           raised = None\<rparr>)
                   else if OUTPUT_FILE_TYPE cfg = ''excel'' then
                     (case to_excel_raises e (OUTPUT_PEAK_DATA_FILE cfg) of
                        None \<Rightarrow>
                          \<lparr>printed = out @ done,
                           write_calls =
                             [To_excel (OUTPUT_PEAK_DATA_FILE cfg) output_df ''PL_Peaks''],
                           raised = None\<rparr>
                      | Some ImportError \<Rightarrow>
                          (let csv_path =
                                 py_replace (OUTPUT_PEAK_DATA_FILE cfg) ''.xlsx'' ''.csv''
                           in case to_csv_raises e csv_path of
                                Some x \<Rightarrow>
                                  \<lparr>printed = out @ [Error_openpyxl],
                                   write_calls =
                                     [To_excel (OUTPUT_PEAK_DATA_FILE cfg) output_df ''PL_Peaks'',
                                      To_csv csv_path output_df],
                                   raised = Some x\<rparr>
                              | None \<Rightarrow>
                                  \<lparr>printed =
                                     out @ [Error_openpyxl, Saved_to_csv_instead csv_path] @ done,
                                   write_calls =
                                     [To_excel (OUTPUT_PEAK_DATA_FILE cfg) output_df ''PL_Peaks'',
                                      To_csv csv_path output_df],
                                   raised = None\<rparr>)
                      | Some x \<Rightarrow>
                          \<lparr>printed = out,
                           write_calls =
                             [To_excel (OUTPUT_PEAK_DATA_FILE cfg) output_df ''PL_Peaks''],
                           raised = Some x\<rparr>)
                   else \<lparr>printed = out @ done, write_calls = [], raised = None\<rparr>)))"

subsection \<open>What one file contributes to the run\<close>

text \<open>
  The dictionary that the loop keeps for a directory entry: the one of line 115 when
  \<^verbatim>\<open>analyze_single_pl_file\<close> returns two numbers for the file, none otherwise.
\<close>

definition peak_row ::
  "config \<Rightarrow> ('n::linorder) env \<Rightarrow> string \<Rightarrow> (string \<times> 'n cell) list option" where
  "peak_row cfg e filename =
     (case fst (analyze_single_pl_file cfg e (os_path_join (RAW_PL_DATA_FOLDER cfg) filename)) of
        (Some (Scalar peak_w), Some (Scalar peak_i)) \<Rightarrow>
          Some (peak_dict (get_sample_id_from_filename filename) peak_w peak_i)
      | _ \<Rightarrow> None)"

text \<open>
  The entries at which line 120 raises: those that end with \<^verbatim>\<open>.csv\<close> and for which
  \<^verbatim>\<open>analyze_single_pl_file\<close> returns a pair with a series in it.
\<close>

definition format_fails :: "config \<Rightarrow> ('n::linorder) env \<Rightarrow> string \<Rightarrow> bool" where
  "format_fails cfg e filename =
     (endswith filename ''.csv'' \<and>
      (case fst (analyze_single_pl_file cfg e (os_path_join (RAW_PL_DATA_FOLDER cfg) filename)) of
         (Some peak_w, Some peak_i) \<Rightarrow> isl (format_float peak_w) \<or> isl (format_float peak_i)
       | _ \<Rightarrow> False))"

text \<open>The files named in the progress lines (line 111), with their sample identifiers.\<close>

fun processed :: "'n msg list \<Rightarrow> (string \<times> string) list" where
  "processed [] = []"
| "processed (Processing filename sample_id # ms) = (filename, sample_id) # processed ms"
| "processed (m # ms) = processed ms"

subsection \<open>Files without double quotes\<close>



definition unquoted :: "string \<Rightarrow> bool" where
  "unquoted l = list_all (\<lambda>c. c \<noteq> QUOTE \<and> c \<noteq> NL) l"

definition plain :: "string \<Rightarrow> bool" where
  "plain f = list_all (\<lambda>c. c \<noteq> QUOTE \<and> c \<noteq> NL \<and> c \<noteq> TAB \<and> c \<noteq> CHR ''#'') f"





subsection \<open>A sample folder\<close>

text \<open>
  A folder of spectrum files and a text file, used to run the program on concrete
  input: \<^verbatim>\<open>A.csv\<close> has three numeric rows (two of them share the highest intensity), a
  comment line and a malformed row; \<^verbatim>\<open>B.csv\<close> has the header line only; \<^verbatim>\<open>C.csv\<close> has
  no header line; \<^verbatim>\<open>D.csv\<close> is listed but cannot be opened; \<^verbatim>\<open>E.csv\<close> has two numeric
  rows between comment lines. The files \<^verbatim>\<open>X.csv\<close>, \<^verbatim>\<open>Q.csv\<close>, \<^verbatim>\<open>R.csv\<close> and
  \<^verbatim>\<open>W.csv\<close> are not listed in the folder: \<^verbatim>\<open>X.csv\<close> has three columns with the same
  text in the first column of its two numeric rows; \<^verbatim>\<open>Q.csv\<close> has a row that starts
  with a double quote; \<^verbatim>\<open>R.csv\<close> has a quoted field that a comment line closes;
  \<^verbatim>\<open>W.csv\<close> has a header line that is a comment, rows of three fields and a malformed
  row of two fields.
\<close>

definition sample_files :: "string \<Rightarrow> exn + string list" where
  "sample_files p =
     (if p = ''PL_Spectra_Raw/A.csv'' then
        Inr [''# sample A'',
             ''lambda [nm]'' @ [TAB] @ ''intensity [a.u.]'',
             ''500.0'' @ [TAB] @ ''10.0'',
             ''#note'',
             ''510.0'' @ [TAB] @ ''55.2'',
             ''abc'' @ [TAB] @ ''xyz'',
             ''520.0'' @ [TAB] @ ''55.2'']
      else if p = ''PL_Spectra_Raw/B.csv'' then
        Inr [''lambda [nm]'' @ [TAB] @ ''intensity [a.u.]'']
      else if p = ''PL_Spectra_Raw/C.csv'' then
        Inr [''# no header'', ''500.0'' @ [TAB] @ ''10.0'']
      else if p = ''PL_Spectra_Raw/E.csv'' then
        Inr [''lambda [nm]'' @ [TAB] @ ''intensity [a.u.]'',
             ''#note'',
             ''500.0'' @ [TAB] @ ''1.0'',
             ''#skip'',
             ''500.0'' @ [TAB] @ ''99.0'']
      else if p = ''PL_Spectra_Raw/X.csv'' then
        Inr [''run'' @ [TAB] @ ''lambda [nm]'' @ [TAB] @ ''intensity [a.u.]'',
             ''a'' @ [TAB] @ ''500.0'' @ [TAB] @ ''10.0'',
             ''a'' @ [TAB] @ ''510.0'' @ [TAB] @ ''55.2'']
      else if p = ''PL_Spectra_Raw/Q.csv'' then
        Inr [''lambda [nm]'' @ [TAB] @ ''intensity [a.u.]'',
             [QUOTE] @ ''500.0'' @ [TAB] @ ''1.0'',
             ''510.0'' @ [TAB] @ ''55.2'']
      else if p = ''PL_Spectra_Raw/R.csv'' then
        Inr [''lambda [nm]'' @ [TAB] @ ''intensity [a.u.]'',
             [QUOTE] @ ''a'',
             ''#'' @ [QUOTE],
             ''500.0'' @ [TAB] @ ''10.0'']
      else if p = ''PL_Spectra_Raw/W.csv'' then
        Inr [''# lambda [nm]'' @ [TAB] @ ''intensity [a.u.]'',
             ''abc'' @ [TAB] @ ''xyz'',
             ''1.0'' @ [TAB] @ ''500.0'' @ [TAB] @ ''10.0'',
             ''99.0'' @ [TAB] @ ''510.0'' @ [TAB] @ ''55.2'']
      else Inl FileNotFoundError)"

definition sample_to_num :: "string \<Rightarrow> real option" where
  "sample_to_num =
     map_of [(''500.0'', 500), (''510.0'', 510), (''520.0'', 520),
             (''1.0'', 1), (''10.0'', 10), (''55.2'', 55.2), (''99.0'', 99)]"

definition sample_env :: "real env" where
  "sample_env =
     \<lparr>listdir = (\<lambda>d. if d = ''PL_Spectra_Raw''
                     then Inr [''A.csv'', ''notes.txt'', ''B.csv'', ''C.csv'', ''D.csv'', ''E.csv'']
                     else Inl FileNotFoundError),
      read_lines = sample_files,
      csv_num = sample_to_num,
      csv_bool = (\<lambda>s. None),
      to_num = sample_to_num,
      to_csv_raises = (\<lambda>p. None),
      to_excel_raises = (\<lambda>p. Some ImportError)\<rparr>"

text \<open>
  The same folder when the output file cannot be written, when the folder itself cannot
  be listed, and when \<^verbatim>\<open>X.csv\<close> is listed between \<^verbatim>\<open>A.csv\<close> and \<^verbatim>\<open>E.csv\<close>.
\<close>

definition unwritable_env :: "real env" where
  "unwritable_env =
     sample_env\<lparr>to_csv_raises := (\<lambda>p. Some (OtherError ''Permission denied''))\<rparr>"

definition unlistable_env :: "real env" where
  "unlistable_env = sample_env\<lparr>listdir := (\<lambda>d. Inl FileNotFoundError)\<rparr>"

definition series_env :: "real env" where
  "series_env = sample_env\<lparr>listdir := (\<lambda>d. Inr [''A.csv'', ''X.csv'', ''E.csv''])\<rparr>"

text \<open>The configuration for a spreadsheet as output.\<close>

definition excel_config :: config where
  "excel_config =
     default_config\<lparr>OUTPUT_PEAK_DATA_FILE := ''peaks.xlsx'', OUTPUT_FILE_TYPE := ''excel''\<rparr>"

section \<open>Properties\<close>

subsection \<open>Files that give no row\<close>

lemma find_header_None:
  "find_header cfg lines n = None \<longleftrightarrow>
   (\<forall>l \<in> set lines. \<not> (py_in (PL_WAVELENGTH_COL_NAME cfg) l \<and> py_in (PL_INTENSITY_COL_NAME cfg) l))"
  by (induction lines arbitrary: n) auto

lemma process_entry_failed:
  assumes "endswith filename ''.csv''"
    and "analyze_single_pl_file cfg e (os_path_join (RAW_PL_DATA_FOLDER cfg) filename)
           = ((None, None), msgs)"
  shows "process_entry cfg e filename (rows, out)
           = Inr (rows, out @ [Processing filename (get_sample_id_from_filename filename)] @ msgs
                @ [Failed_to_extract (get_sample_id_from_filename filename)])"
  using assms by (simp add: process_entry_def Let_def)

text \<open>
  Claim C2. When the frame of line 74 is empty (no row with two numbers is left after the
  header skip, the comment filter and the coercion), \<^verbatim>\<open>analyze_single_pl_file\<close> returns
  \<^verbatim>\<open>(None, None)\<close> and prints the warning that names the file; the loop of the main
  program appends no row for the file, prints the failure and goes on with the files that
  remain.
\<close>

theorem no_data_file_is_skipped:
  assumes "parse_spectrum cfg e file_path = Inr []"
  shows "analyze_single_pl_file cfg e file_path = ((None, None), [Warning_no_data file_path])
     \<and> (\<forall>filename rest rows out.
           endswith filename ''.csv'' \<and> os_path_join (RAW_PL_DATA_FOLDER cfg) filename = file_path
           \<longrightarrow> main_loop cfg e (filename # rest) (rows, out)
                 = main_loop cfg e rest
                     (rows, out @ [Processing filename (get_sample_id_from_filename filename),
                                   Warning_no_data file_path,
                                   Failed_to_extract (get_sample_id_from_filename filename)]))"
proof -
  have a: "analyze_single_pl_file cfg e file_path = ((None, None), [Warning_no_data file_path])"
    using assms by (simp add: analyze_single_pl_file_def analyze_body_def)
  show ?thesis using a by (auto simp: process_entry_failed)
qed

theorem no_data_file_is_skipped_witness:
  "parse_spectrum default_config sample_env ''PL_Spectra_Raw/B.csv'' = Inr []
   \<and> endswith ''B.csv'' ''.csv''
   \<and> os_path_join (RAW_PL_DATA_FOLDER default_config) ''B.csv'' = ''PL_Spectra_Raw/B.csv''
   \<and> analyze_single_pl_file default_config sample_env ''PL_Spectra_Raw/B.csv''
       = ((None, None), [Warning_no_data ''PL_Spectra_Raw/B.csv''])
   \<and> main_loop default_config sample_env [''B.csv''] ([], [])
       = Inr ([], [Processing ''B.csv'' ''B'', Warning_no_data ''PL_Spectra_Raw/B.csv'',
                   Failed_to_extract ''B''])"
proof -
  have p: "parse_spectrum default_config sample_env ''PL_Spectra_Raw/B.csv'' = Inr []"
    by code_simp
  have j: "endswith ''B.csv'' ''.csv''"
    "os_path_join (RAW_PL_DATA_FOLDER default_config) ''B.csv'' = ''PL_Spectra_Raw/B.csv''"
    "get_sample_id_from_filename ''B.csv'' = ''B''"
    by code_simp+
  note t = no_data_file_is_skipped [OF p]
  have m: "main_loop default_config sample_env (''B.csv'' # []) ([], [])
             = main_loop default_config sample_env []
                 ([], [] @ [Processing ''B.csv'' (get_sample_id_from_filename ''B.csv''),
                            Warning_no_data ''PL_Spectra_Raw/B.csv'',
                            Failed_to_extract (get_sample_id_from_filename ''B.csv'')])"
    using t j(1,2) by blast
  show ?thesis using t p j m by simp
qed

text \<open>
  Claim C3. When no line of the file holds both column names, the body raises the
  \<^verbatim>\<open>ValueError\<close> whose message ends with the path of the file; the handler prints it and
  returns \<^verbatim>\<open>(None, None)\<close>; the loop appends no row for the file, prints the failure and
  goes on with the files that remain.
\<close>

theorem missing_header_is_reported:
  assumes "read_lines e file_path = Inr lines"
    and "\<forall>l \<in> set lines. \<not> (py_in (PL_WAVELENGTH_COL_NAME cfg) l \<and> py_in (PL_INTENSITY_COL_NAME cfg) l)"
  shows "analyze_body cfg e file_path = Inl (ValueError (header_not_found_message cfg file_path))
     \<and> suffix ('' in '' @ file_path) (header_not_found_message cfg file_path)
     \<and> analyze_single_pl_file cfg e file_path
         = ((None, None),
            [Error_processing file_path (ValueError (header_not_found_message cfg file_path))])
     \<and> (\<forall>filename rest rows out.
           endswith filename ''.csv'' \<and> os_path_join (RAW_PL_DATA_FOLDER cfg) filename = file_path
           \<longrightarrow> main_loop cfg e (filename # rest) (rows, out)
                 = main_loop cfg e rest
                     (rows, out @ [Processing filename (get_sample_id_from_filename filename),
                                   Error_processing file_path
                                     (ValueError (header_not_found_message cfg file_path)),
                                   Failed_to_extract (get_sample_id_from_filename filename)]))"
proof -
  have h: "find_header cfg lines 0 = None" using assms(2) by (simp add: find_header_None)
  have b: "analyze_body cfg e file_path = Inl (ValueError (header_not_found_message cfg file_path))"
    using assms(1) h by (simp add: analyze_body_def parse_spectrum_def)
  have a: "analyze_single_pl_file cfg e file_path
         = ((None, None),
            [Error_processing file_path (ValueError (header_not_found_message cfg file_path))])"
    using b by (simp add: analyze_single_pl_file_def)
  have s: "suffix ('' in '' @ file_path) (header_not_found_message cfg file_path)"
    unfolding header_not_found_message_def suffix_def by (metis append.assoc)
  show ?thesis using a b s by (auto simp: process_entry_failed)
qed

theorem missing_header_is_reported_witness:
  "read_lines sample_env ''PL_Spectra_Raw/C.csv'' = Inr [''# no header'', ''500.0'' @ [TAB] @ ''10.0'']
   \<and> list_all (\<lambda>l. \<not> (py_in (PL_WAVELENGTH_COL_NAME default_config) l
                        \<and> py_in (PL_INTENSITY_COL_NAME default_config) l))
         [''# no header'', ''500.0'' @ [TAB] @ ''10.0'']
   \<and> endswith ''C.csv'' ''.csv''
   \<and> os_path_join (RAW_PL_DATA_FOLDER default_config) ''C.csv'' = ''PL_Spectra_Raw/C.csv''
   \<and> fst (analyze_single_pl_file default_config sample_env ''PL_Spectra_Raw/C.csv'') = (None, None)
   \<and> map_sum fst fst (main_loop default_config sample_env [''C.csv'', ''A.csv''] ([], []))
       = Inr [peak_dict ''A'' 510 55.2]"
proof -
  have r: "read_lines sample_env ''PL_Spectra_Raw/C.csv''
             = Inr [''# no header'', ''500.0'' @ [TAB] @ ''10.0'']"
    by (simp add: sample_env_def sample_files_def)
  have n: "\<forall>l \<in> set [''# no header'', ''500.0'' @ [TAB] @ ''10.0''].
         \<not> (py_in (PL_WAVELENGTH_COL_NAME default_config) l
            \<and> py_in (PL_INTENSITY_COL_NAME default_config) l)"
    by (simp add: default_config_def)
  have j: "endswith ''C.csv'' ''.csv''"
    "os_path_join (RAW_PL_DATA_FOLDER default_config) ''C.csv'' = ''PL_Spectra_Raw/C.csv''"
    by code_simp+
  have a: "map_sum fst fst (main_loop default_config sample_env [''A.csv'']
             ([], [] @ [Processing ''C.csv'' (get_sample_id_from_filename ''C.csv''),
                   Error_processing ''PL_Spectra_Raw/C.csv''
                     (ValueError (header_not_found_message default_config ''PL_Spectra_Raw/C.csv'')),
                   Failed_to_extract (get_sample_id_from_filename ''C.csv'')]))
            = Inr [peak_dict ''A'' 510 55.2]"
    by code_simp
  note t = missing_header_is_reported [OF r n]
  have m: "main_loop default_config sample_env (''C.csv'' # [''A.csv'']) ([], [])
             = main_loop default_config sample_env [''A.csv'']
                 ([], [] @ [Processing ''C.csv'' (get_sample_id_from_filename ''C.csv''),
                   Error_processing ''PL_Spectra_Raw/C.csv''
                     (ValueError (header_not_found_message default_config ''PL_Spectra_Raw/C.csv'')),
                   Failed_to_extract (get_sample_id_from_filename ''C.csv'')])"
    using t j by blast
  have f: "fst (analyze_single_pl_file default_config sample_env ''PL_Spectra_Raw/C.csv'')
             = (None, None)"
    using t by simp
  have n': "list_all (\<lambda>l. \<not> (py_in (PL_WAVELENGTH_COL_NAME default_config) l
                        \<and> py_in (PL_INTENSITY_COL_NAME default_config) l))
         [''# no header'', ''500.0'' @ [TAB] @ ''10.0'']"
    using n by (simp only: list_all_iff)
  show ?thesis using r n' j f a unfolding m by blast
qed

subsection \<open>The tokenizer on lines without double quotes\<close>











subsection \<open>Tables of two columns of objects\<close>





lemma plain_unquoted: "plain f \<Longrightarrow> unquoted f"
  by (simp add: plain_def unquoted_def list_all_iff)










subsection \<open>The row that \<^verbatim>\<open>idxmax\<close> selects\<close>














subsection \<open>Lines of the data region that give no point\<close>














subsection \<open>Files whose first record has more than two fields\<close>

text \<open>
  Claim C1 does not hold of the program. \<^verbatim>\<open>read_csv\<close> is called with two names and
  without \<^verbatim>\<open>index_col=False\<close>, so a file whose first record has three fields gives its
  first column as the index of the frame. In \<^verbatim>\<open>X.csv\<close> the two numeric rows carry the
  same label: both are valid rows, the maximal intensity 55.2 stands in the second one
  with the wavelength 510, and \<^verbatim>\<open>loc\<close> at the label of \<^verbatim>\<open>idxmax\<close> selects both rows:
  the function returns the two columns, not the pair (510, 55.2).
\<close>

theorem repeated_label_gives_series:
  "parse_spectrum default_config sample_env ''PL_Spectra_Raw/X.csv''
     = Inr [(Key [Text ''a''], 500, 10), (Key [Text ''a''], 510, 55.2)]
   \<and> idxmax [(Key [Text ''a''], 500, 10), (Key [Text ''a''], 510, 55.2 :: real)]
     = Inr (Key [Text ''a''])
   \<and> analyze_single_pl_file default_config sample_env ''PL_Spectra_Raw/X.csv''
     = ((Some (Series [500, 510]), Some (Series [10, 55.2])), [])"
  by code_simp

text \<open>
  Claim C10 does not hold of the program, by the same defect: for \<^verbatim>\<open>X.csv\<close> the
  function returns neither \<^verbatim>\<open>(None, None)\<close> nor two numbers, but two series; line 120
  of the batch loop then raises \<^verbatim>\<open>TypeError\<close> on the format of a series, outside every
  \<^verbatim>\<open>try\<close>, and the run ends with \<^verbatim>\<open>E.csv\<close> unprocessed. What remains true for every
  path is that the function raises nothing and returns \<^verbatim>\<open>(None, None)\<close> or a pair without
  \<^verbatim>\<open>None\<close>.
\<close>

theorem analyze_returns_series:
  "fst (analyze_single_pl_file default_config series_env ''PL_Spectra_Raw/X.csv'')
     = (Some (Series [500, 510]), Some (Series [10, 55.2]))
   \<and> listdir series_env (RAW_PL_DATA_FOLDER default_config) = Inr [''A.csv'', ''X.csv'', ''E.csv'']
   \<and> raised (main default_config series_env) = Some TypeError
   \<and> write_calls (main default_config series_env) = []
   \<and> processed (printed (main default_config series_env)) = [(''A.csv'', ''A''), (''X.csv'', ''X'')]
   \<and> (fst (analyze_single_pl_file cfg e p) = (None, None)
        \<or> (\<exists>w i. fst (analyze_single_pl_file cfg e p) = (Some w, Some i)))"
proof -
  have "fst (analyze_single_pl_file cfg e p) = (None, None)
        \<or> (\<exists>w i. fst (analyze_single_pl_file cfg e p) = (Some w, Some i))"
  proof (cases "analyze_body cfg e p")
    case (Inl x)
    then show ?thesis by (cases x) (simp_all add: analyze_single_pl_file_def)
  next
    case (Inr r)
    then show ?thesis
      by (auto simp: analyze_single_pl_file_def analyze_body_def split: sum.splits if_splits)
  qed
  moreover have "fst (analyze_single_pl_file default_config series_env ''PL_Spectra_Raw/X.csv'')
     = (Some (Series [500, 510]), Some (Series [10, 55.2]))"
    by code_simp
  moreover have "listdir series_env (RAW_PL_DATA_FOLDER default_config)
     = Inr [''A.csv'', ''X.csv'', ''E.csv'']"
    by code_simp
  moreover have "raised (main default_config series_env) = Some TypeError"
    by code_simp
  moreover have "write_calls (main default_config series_env) = []"
    by code_simp
  moreover have "processed (printed (main default_config series_env))
     = [(''A.csv'', ''A''), (''X.csv'', ''X'')]"
    by code_simp
  ultimately show ?thesis by blast
qed

subsection \<open>The loop over the folder and the table\<close>

lemma processed_append: "processed (xs @ ys) = processed xs @ processed ys"
  by (induction xs rule: processed.induct) auto

lemma analyze_prints_no_progress:
  "processed (snd (analyze_single_pl_file cfg e p)) = []"
proof (cases "analyze_body cfg e p")
  case (Inl x)
  then show ?thesis by (cases x) (simp_all add: analyze_single_pl_file_def)
next
  case (Inr r)
  then show ?thesis
    by (auto simp: analyze_single_pl_file_def analyze_body_def split: sum.splits if_splits)
qed

lemma process_entry_other:
  "\<not> endswith filename ''.csv'' \<Longrightarrow> process_entry cfg e filename (rows, out) = Inr (rows, out)"
  by (simp add: process_entry_def)

lemma process_entry_ok:
  assumes "endswith filename ''.csv''" "\<not> format_fails cfg e filename"
  shows "\<exists>out'. process_entry cfg e filename (rows, out)
             = Inr (rows @ (case peak_row cfg e filename of None \<Rightarrow> [] | Some d \<Rightarrow> [d]), out')
           \<and> processed out' = processed out @ [(filename, get_sample_id_from_filename filename)]"
proof -
  let ?p = "os_path_join (RAW_PL_DATA_FOLDER cfg) filename"
  obtain a b msgs where r: "analyze_single_pl_file cfg e ?p = ((a, b), msgs)"
    by (cases "analyze_single_pl_file cfg e ?p") auto
  have m: "processed msgs = []" using analyze_prints_no_progress [of cfg e ?p] r by simp
  show ?thesis
    using assms r m
    by (auto simp: process_entry_def peak_row_def format_fails_def format_float_def Let_def
          processed_append split: option.splits val.splits)
qed

lemma process_entry_abort:
  assumes "format_fails cfg e filename"
  shows "\<exists>out'. process_entry cfg e filename (rows, out) = Inl (TypeError, out')
           \<and> processed out' = processed out @ [(filename, get_sample_id_from_filename filename)]"
proof -
  let ?p = "os_path_join (RAW_PL_DATA_FOLDER cfg) filename"
  obtain a b msgs where r: "analyze_single_pl_file cfg e ?p = ((a, b), msgs)"
    by (cases "analyze_single_pl_file cfg e ?p") auto
  have m: "processed msgs = []" using analyze_prints_no_progress [of cfg e ?p] r by simp
  show ?thesis
    using assms r m
    by (auto simp: process_entry_def format_fails_def format_float_def Let_def
          processed_append split: option.splits val.splits)
qed

lemma main_loop_result:
  assumes "\<not> list_ex (format_fails cfg e) names"
  shows "\<exists>out. main_loop cfg e names (rows, out0)
           = Inr (rows @ List.map_filter (peak_row cfg e) (filter (\<lambda>f. endswith f ''.csv'') names),
                  out)
         \<and> processed out = processed out0 @ map (\<lambda>f. (f, get_sample_id_from_filename f))
                      (filter (\<lambda>f. endswith f ''.csv'') names)"
  using assms
proof (induction names arbitrary: rows out0)
  case Nil
  then show ?case by simp
next
  case (Cons f names)
  then have nf: "\<not> format_fails cfg e f" and rest: "\<not> list_ex (format_fails cfg e) names"
    by simp_all
  show ?case
  proof (cases "endswith f ''.csv''")
    case False
    then show ?thesis using Cons.IH [OF rest, of rows out0] by (simp add: process_entry_other)
  next
    case True
    from process_entry_ok [OF True nf, of rows out0] obtain out' where
      p: "process_entry cfg e f (rows, out0)
            = Inr (rows @ (case peak_row cfg e f of None \<Rightarrow> [] | Some d \<Rightarrow> [d]), out')"
      and q: "processed out' = processed out0 @ [(f, get_sample_id_from_filename f)]"
      by blast
    from Cons.IH [OF rest, of "rows @ (case peak_row cfg e f of None \<Rightarrow> [] | Some d \<Rightarrow> [d])" out']
    show ?thesis using True p q by (auto split: option.splits)
  qed
qed

lemma main_loop_abort:
  assumes "main_loop cfg e names (rows, out0) = Inl (x, out)"
  shows "x = TypeError \<and> list_ex (format_fails cfg e) names
       \<and> prefix (processed out)
           (processed out0 @ map (\<lambda>f. (f, get_sample_id_from_filename f))
                               (filter (\<lambda>f. endswith f ''.csv'') names))"
  using assms
proof (induction names arbitrary: rows out0)
  case Nil
  then show ?case by simp
next
  case (Cons f names)
  show ?case
  proof (cases "format_fails cfg e f")
    case True
    then have c: "endswith f ''.csv''" by (simp add: format_fails_def)
    from process_entry_abort [OF True, of rows out0] Cons.prems
    have "x = TypeError" "processed out = processed out0 @ [(f, get_sample_id_from_filename f)]"
      by auto
    then show ?thesis using True c by simp
  next
    case nf: False
    show ?thesis
    proof (cases "endswith f ''.csv''")
      case False
      then show ?thesis using Cons.IH [of rows out0] Cons.prems nf
        by (simp add: process_entry_other)
    next
      case True
      from process_entry_ok [OF True nf, of rows out0] obtain out' where
        p: "process_entry cfg e f (rows, out0)
              = Inr (rows @ (case peak_row cfg e f of None \<Rightarrow> [] | Some d \<Rightarrow> [d]), out')"
        and q: "processed out' = processed out0 @ [(f, get_sample_id_from_filename f)]"
        by blast
      from Cons.IH [of "rows @ (case peak_row cfg e f of None \<Rightarrow> [] | Some d \<Rightarrow> [d])" out']
        Cons.prems p
      show ?thesis using True q nf by simp
    qed
  qed
qed

lemma main_loop_aborts:
  assumes "list_ex (format_fails cfg e) names"
  shows "\<exists>y. main_loop cfg e names (rows, out0) = Inl y"
  using assms
proof (induction names arbitrary: rows out0)
  case Nil
  then show ?case by simp
next
  case (Cons f names)
  show ?case
  proof (cases "format_fails cfg e f")
    case True
    from process_entry_abort [OF True, of rows out0] show ?thesis by auto
  next
    case nf: False
    then have rest: "list_ex (format_fails cfg e) names" using Cons.prems by simp
    show ?thesis
    proof (cases "endswith f ''.csv''")
      case False
      then show ?thesis using Cons.IH [OF rest, of rows out0] by (simp add: process_entry_other)
    next
      case True
      from process_entry_ok [OF True nf, of rows out0] obtain out' where
        p: "process_entry cfg e f (rows, out0)
              = Inr (rows @ (case peak_row cfg e f of None \<Rightarrow> [] | Some d \<Rightarrow> [d]), out')"
        by blast
      from Cons.IH [OF rest, of "rows @ (case peak_row cfg e f of None \<Rightarrow> [] | Some d \<Rightarrow> [d])" out']
      show ?thesis using p by simp
    qed
  qed
qed

lemma first_seen:
  assumes "set ys \<subseteq> set xs" "distinct xs"
  shows "rev (remdups (rev (xs @ ys))) = xs"
proof -
  have "remdups (rev ys @ rev xs) = remdups (rev xs)"
    using assms(1) by (intro remdups_append) simp
  then show ?thesis using assms(2) by (simp add: distinct_remdups_id)
qed

lemma DataFrame_same_keys:
  assumes "ds \<noteq> []" "\<forall>d \<in> set ds. map fst d = cols" "distinct cols"
  shows "DataFrame ds = \<lparr>columns = cols, records = map (\<lambda>d. map (map_of d) cols) ds\<rparr>"
proof -
  obtain d ds' where ds: "ds = d # ds'" using assms(1) by (cases ds) auto
  have c: "concat (map (map fst) ds) = cols @ concat (map (map fst) ds')"
    using assms(2) ds by simp
  have "set (concat (map (map fst) ds')) \<subseteq> set cols"
    using assms(2) ds by auto
  then have "rev (remdups (rev (concat (map (map fst) ds)))) = cols"
    unfolding c using assms(3) by (rule first_seen)
  then show ?thesis by (simp add: DataFrame_def)
qed

lemma peak_row_Some:
  "peak_row cfg e f = Some d \<Longrightarrow>
   \<exists>w i. d = peak_dict (get_sample_id_from_filename f) w i
        \<and> fst (analyze_single_pl_file cfg e (os_path_join (RAW_PL_DATA_FOLDER cfg) f))
            = (Some (Scalar w), Some (Scalar i))"
  by (auto simp: peak_row_def split: prod.splits option.splits val.splits)

lemma DataFrame_peak_rows:
  assumes "rows = List.map_filter (peak_row cfg e) fs" "rows \<noteq> []"
  shows "DataFrame rows =
     \<lparr>columns = [''QW_Sample'', ''PL_Peak_Wavelength_nm'', ''PL_Peak_Intensity_au''],
      records = map (map (Some \<circ> snd)) rows\<rparr>"
proof -
  let ?cols = "[''QW_Sample'', ''PL_Peak_Wavelength_nm'', ''PL_Peak_Intensity_au'']"
  have k: "map fst d = ?cols \<and> map (map_of d) ?cols = map (Some \<circ> snd) d" if "d \<in> set rows" for d
  proof -
    from that obtain f where "peak_row cfg e f = Some d"
      unfolding assms(1) by (auto simp: List.map_filter_def)
    from peak_row_Some [OF this] obtain w i where
      "d = peak_dict (get_sample_id_from_filename f) w i" by blast
    then show ?thesis by (simp add: peak_dict_def)
  qed
  have "DataFrame rows = \<lparr>columns = ?cols, records = map (\<lambda>d. map (map_of d) ?cols) rows\<rparr>"
    using k by (intro DataFrame_same_keys assms(2)) auto
  moreover have "map (\<lambda>d. map (map_of d) ?cols) rows = map (map (Some \<circ> snd)) rows"
    using k by (intro map_cong) auto
  ultimately show ?thesis by simp
qed

text \<open>
  Claim C6. Let every file be processed (line 120 raises at no entry). With \<open>rows\<close>
  the dictionaries of the entries that end with \<^verbatim>\<open>.csv\<close> and for which
  \<^verbatim>\<open>analyze_single_pl_file\<close> returned two numbers, in the order of the directory
  listing: when there is none, the program makes no call of a writer, ends without an
  exception, and the last thing it prints is that no peak was extracted; otherwise the table
  it hands to the writer has the three fixed columns and one record for each of these
  dictionaries, in that order. The writer is \<^verbatim>\<open>to_csv\<close> at the configured path for the
  file type \<^verbatim>\<open>csv\<close>; for \<^verbatim>\<open>excel\<close> it is \<^verbatim>\<open>to_excel\<close>, followed or not by the
  \<^verbatim>\<open>to_csv\<close> of the fallback, with the same table.
\<close>

theorem output_table:
  assumes "listdir e (RAW_PL_DATA_FOLDER cfg) = Inr names"
    and "\<not> list_ex (format_fails cfg e) names"
    and "rows = List.map_filter (peak_row cfg e) (filter (\<lambda>f. endswith f ''.csv'') names)"
    and "tbl = \<lparr>columns = [''QW_Sample'', ''PL_Peak_Wavelength_nm'', ''PL_Peak_Intensity_au''],
               records = map (map (Some \<circ> snd)) rows\<rparr>"
  shows "(rows = [] \<longrightarrow>
            write_calls (main cfg e) = [] \<and> raised (main cfg e) = None
            \<and> last (printed (main cfg e)) = No_peaks_extracted)
       \<and> (rows \<noteq> [] \<and> OUTPUT_FILE_TYPE cfg = ''csv'' \<longrightarrow>
            write_calls (main cfg e) = [To_csv (OUTPUT_PEAK_DATA_FILE cfg) tbl])
       \<and> (rows \<noteq> [] \<and> OUTPUT_FILE_TYPE cfg = ''excel'' \<longrightarrow>
            write_calls (main cfg e) = [To_excel (OUTPUT_PEAK_DATA_FILE cfg) tbl ''PL_Peaks'']
            \<or> write_calls (main cfg e)
                = [To_excel (OUTPUT_PEAK_DATA_FILE cfg) tbl ''PL_Peaks'',
                   To_csv (py_replace (OUTPUT_PEAK_DATA_FILE cfg) ''.xlsx'' ''.csv'') tbl])"
proof -
  from main_loop_result [OF assms(2), of "[]" "[Scanning (RAW_PL_DATA_FOLDER cfg)]"]
  obtain out where
    l: "main_loop cfg e names ([], [Scanning (RAW_PL_DATA_FOLDER cfg)]) = Inr (rows, out)"
    unfolding assms(3) by auto
  have t: "DataFrame rows = tbl" if "rows \<noteq> []"
    unfolding assms(4) using assms(3) that by (rule DataFrame_peak_rows)
  show ?thesis
  proof (cases "rows = []")
    case True
    then show ?thesis using assms(1) l by (simp add: main_def)
  next
    case False
    then show ?thesis using assms(1) l t [OF False]
      by (auto simp: main_def Let_def split: option.splits exn.splits)
  qed
qed

theorem output_table_witness:
  "listdir sample_env (RAW_PL_DATA_FOLDER default_config)
     = Inr [''A.csv'', ''notes.txt'', ''B.csv'', ''C.csv'', ''D.csv'', ''E.csv'']
   \<and> \<not> list_ex (format_fails default_config sample_env)
         [''A.csv'', ''notes.txt'', ''B.csv'', ''C.csv'', ''D.csv'', ''E.csv'']
   \<and> [peak_dict ''A'' 510 55.2, peak_dict ''E'' 500 99]
     = List.map_filter (peak_row default_config sample_env)
         (filter (\<lambda>f. endswith f ''.csv'')
            [''A.csv'', ''notes.txt'', ''B.csv'', ''C.csv'', ''D.csv'', ''E.csv''])
   \<and> OUTPUT_FILE_TYPE default_config = ''csv''
   \<and> write_calls (main default_config sample_env)
     = [To_csv ''extracted_pl_peaks.csv''
          \<lparr>columns = [''QW_Sample'', ''PL_Peak_Wavelength_nm'', ''PL_Peak_Intensity_au''],
           records = [[Some (Str ''A''), Some (Num 510), Some (Num 55.2)],
                      [Some (Str ''E''), Some (Num 500), Some (Num 99)]]\<rparr>]
   \<and> listdir (sample_env\<lparr>listdir := \<lambda>d. Inr [''notes.txt'', ''B.csv'']\<rparr>)
         (RAW_PL_DATA_FOLDER default_config)
     = Inr [''notes.txt'', ''B.csv'']
   \<and> \<not> list_ex
         (format_fails default_config (sample_env\<lparr>listdir := \<lambda>d. Inr [''notes.txt'', ''B.csv'']\<rparr>))
         [''notes.txt'', ''B.csv'']
   \<and> [] = List.map_filter
              (peak_row default_config (sample_env\<lparr>listdir := \<lambda>d. Inr [''notes.txt'', ''B.csv'']\<rparr>))
              (filter (\<lambda>f. endswith f ''.csv'') [''notes.txt'', ''B.csv''])
   \<and> write_calls (main default_config (sample_env\<lparr>listdir := \<lambda>d. Inr [''notes.txt'', ''B.csv'']\<rparr>))
     = []
   \<and> last (printed (main default_config
                       (sample_env\<lparr>listdir := \<lambda>d. Inr [''notes.txt'', ''B.csv'']\<rparr>)))
     = No_peaks_extracted"
proof -
  let ?e0 = "sample_env\<lparr>listdir := \<lambda>d. Inr [''notes.txt'', ''B.csv'']\<rparr>"
  have l: "listdir sample_env (RAW_PL_DATA_FOLDER default_config)
     = Inr [''A.csv'', ''notes.txt'', ''B.csv'', ''C.csv'', ''D.csv'', ''E.csv'']"
    by code_simp
  have n: "\<not> list_ex (format_fails default_config sample_env)
         [''A.csv'', ''notes.txt'', ''B.csv'', ''C.csv'', ''D.csv'', ''E.csv'']"
    by code_simp
  have n0: "\<not> list_ex (format_fails default_config ?e0) [''notes.txt'', ''B.csv'']"
    by code_simp
  have r: "[peak_dict ''A'' 510 55.2, peak_dict ''E'' 500 99]
     = List.map_filter (peak_row default_config sample_env)
         (filter (\<lambda>f. endswith f ''.csv'')
            [''A.csv'', ''notes.txt'', ''B.csv'', ''C.csv'', ''D.csv'', ''E.csv''])"
    by code_simp
  have c: "OUTPUT_FILE_TYPE default_config = ''csv''" by (simp add: default_config_def)
  have l0: "listdir ?e0 (RAW_PL_DATA_FOLDER default_config) = Inr [''notes.txt'', ''B.csv'']"
    by simp
  have r0: "[] = List.map_filter (peak_row default_config ?e0)
              (filter (\<lambda>f. endswith f ''.csv'') [''notes.txt'', ''B.csv''])"
    by code_simp
  have w: "write_calls (main default_config sample_env)
     = [To_csv ''extracted_pl_peaks.csv''
          \<lparr>columns = [''QW_Sample'', ''PL_Peak_Wavelength_nm'', ''PL_Peak_Intensity_au''],
           records = [[Some (Str ''A''), Some (Num 510), Some (Num 55.2)],
                      [Some (Str ''E''), Some (Num 500), Some (Num 99)]]\<rparr>]"
    using output_table [OF l n r refl] c by (simp add: peak_dict_def default_config_def)
  have w0: "write_calls (main default_config ?e0) = []
            \<and> last (printed (main default_config ?e0)) = No_peaks_extracted"
    using output_table [OF l0 n0 r0 refl] by simp
  show ?thesis using l n r c l0 n0 r0 w w0 by blast
qed

subsection \<open>The file locator and the sample identifier\<close>

lemma rfind_absent: "c \<notin> set s \<Longrightarrow> rfind s c = - 1"
  by (simp add: rfind_def)

lemma rfind_last_dot: "rfind (stem @ ''.csv'') (CHR ''.'') = int (length stem)"
  by (simp add: rfind_def)

lemma splitext_csv:
  assumes "CHR ''/'' \<notin> set stem"
  shows "splitext (stem @ ''.csv'') =
           (if list_ex (\<lambda>c. c \<noteq> CHR ''.'') stem then (stem, ''.csv'') else (stem @ ''.csv'', []))"
proof -
  have s: "rfind (stem @ ''.csv'') (CHR ''/'') = - 1"
    using assms by (intro rfind_absent) simp
  show ?thesis unfolding splitext_def s rfind_last_dot by (simp add: Let_def)
qed

lemma rfind_present:
  assumes "c \<in> set s"
  shows "\<exists>pre post. s = pre @ c # post \<and> c \<notin> set post \<and> rfind s c = int (length pre)"
proof -
  from split_list_last [OF assms] obtain pre post where
    s: "s = pre @ c # post" "c \<notin> set post" by blast
  have "takeWhile (\<lambda>x. x \<noteq> c) (rev post @ c # rev pre) = rev post"
    using s(2) by (auto simp: takeWhile_tail takeWhile_eq_all_conv)
  then have "rfind s c = int (length pre)"
    using s by (simp add: rfind_def)
  then show ?thesis using s by blast
qed

lemma splitext_parts: "fst (splitext p) @ snd (splitext p) = p"
  by (simp add: splitext_def Let_def)

lemma splitext_extension:
  "snd (splitext p) = []
   \<or> (\<exists>ext. snd (splitext p) = CHR ''.'' # ext \<and> CHR ''.'' \<notin> set ext \<and> CHR ''/'' \<notin> set ext)"
proof (cases "snd (splitext p) = []")
  case True
  then show ?thesis by simp
next
  case False
  then have gt: "rfind p (CHR ''.'') > rfind p (CHR ''/'')"
    and sn: "snd (splitext p) = drop (nat (rfind p (CHR ''.''))) p"
    by (auto simp: splitext_def Let_def split: if_splits)
  have "CHR ''.'' \<in> set p"
  proof (rule ccontr)
    assume "CHR ''.'' \<notin> set p"
    then have "rfind p (CHR ''.'') = - 1" by (rule rfind_absent)
    moreover have "rfind p (CHR ''/'') \<ge> - 1"
      by (cases "CHR ''/'' \<in> set p") (auto simp: rfind_absent dest: rfind_present)
    ultimately show False using gt by simp
  qed
  from rfind_present [OF this] obtain pre post where
    d: "p = pre @ CHR ''.'' # post" "CHR ''.'' \<notin> set post"
       "rfind p (CHR ''.'') = int (length pre)" by blast
  have e: "snd (splitext p) = CHR ''.'' # post"
    unfolding sn d(3) using d(1) by simp
  have "CHR ''/'' \<notin> set post"
  proof
    assume a: "CHR ''/'' \<in> set post"
    then have "CHR ''/'' \<in> set p" using d(1) by simp
    from rfind_present [OF this] obtain pre2 post2 where
      q: "p = pre2 @ CHR ''/'' # post2" "CHR ''/'' \<notin> set post2"
         "rfind p (CHR ''/'') = int (length pre2)" by blast
    have lt: "length pre2 < length pre" using gt d(3) q(3) by simp
    have "post = drop (Suc (length pre)) p" using d(1) by simp
    also have "\<dots> = drop (Suc (length pre)) (pre2 @ CHR ''/'' # post2)" using q(1) by simp
    also have "\<dots> = drop (length pre - length pre2) post2"
      using lt by (simp add: Suc_diff_le)
    finally have "set post \<subseteq> set post2" by (simp add: set_drop_subset)
    then show False using a q(2) by blast
  qed
  then show ?thesis using e d(2) by blast
qed

text \<open>
  Claim C9. The files the program processes are entries of the directory listing whose
  name ends with \<^verbatim>\<open>.csv\<close>, in the order of the listing and none of them left out, each
  with the sample identifier that \<^verbatim>\<open>get_sample_id_from_filename\<close> derives from its name;
  they are all these entries when every file is processed (line 120 raises at no entry);
  the listing is read once and no entry is descended into. The identifier is the name without
  its extension: identifier and extension make up the name, and the extension, as
  \<^verbatim>\<open>os.path.splitext\<close> gives it, is empty or a dot followed by characters that are
  neither a dot nor a separator. For a name \<open>stem @ ''.csv''\<close> the identifier is
  \<open>stem\<close>; only a name whose stem is empty or made of dots has an empty extension (the
  leading dots of a name start no extension) and is its own identifier.
\<close>

theorem locator_and_sample_id:
  assumes "listdir e (RAW_PL_DATA_FOLDER cfg) = Inr names"
  shows "prefix (processed (printed (main cfg e)))
           (map (\<lambda>f. (f, get_sample_id_from_filename f))
              (filter (\<lambda>f. endswith f ''.csv'') names))
       \<and> (\<not> list_ex (format_fails cfg e) names \<longrightarrow>
            processed (printed (main cfg e))
              = map (\<lambda>f. (f, get_sample_id_from_filename f))
                  (filter (\<lambda>f. endswith f ''.csv'') names))
       \<and> (\<forall>f. get_sample_id_from_filename f @ snd (splitext f) = f
              \<and> (snd (splitext f) = []
                  \<or> (\<exists>ext. snd (splitext f) = CHR ''.'' # ext
                         \<and> CHR ''.'' \<notin> set ext \<and> CHR ''/'' \<notin> set ext)))
       \<and> (\<forall>stem. CHR ''/'' \<notin> set stem \<longrightarrow>
             get_sample_id_from_filename (stem @ ''.csv'')
               = (if list_ex (\<lambda>c. c \<noteq> CHR ''.'') stem then stem else stem @ ''.csv''))"
proof -
  let ?sel = "map (\<lambda>f. (f, get_sample_id_from_filename f))
                (filter (\<lambda>f. endswith f ''.csv'') names)"
  have eq: "processed (printed (main cfg e)) = ?sel"
    if nf: "\<not> list_ex (format_fails cfg e) names"
  proof -
    from main_loop_result [OF nf, of "[]" "[Scanning (RAW_PL_DATA_FOLDER cfg)]"]
    obtain rows out where
      l: "main_loop cfg e names ([], [Scanning (RAW_PL_DATA_FOLDER cfg)]) = Inr (rows, out)"
      and p: "processed out = ?sel"
      by auto
    have "processed (printed (main cfg e)) = processed out"
      using assms l
      by (auto simp: main_def Let_def final_report_def processed_append
               split: option.splits exn.splits)
    then show ?thesis using p by simp
  qed
  have pre: "prefix (processed (printed (main cfg e))) ?sel"
  proof (cases "main_loop cfg e names ([], [Scanning (RAW_PL_DATA_FOLDER cfg)])")
    case (Inl a)
    obtain x out where a: "a = (x, out)" by (cases a) auto
    from main_loop_abort [of cfg e names "[]" "[Scanning (RAW_PL_DATA_FOLDER cfg)]" x out]
    have "prefix (processed out) ?sel" using Inl a by simp
    moreover have "printed (main cfg e) = out" using assms Inl a by (simp add: main_def)
    ultimately show ?thesis by simp
  next
    case (Inr b)
    have "\<not> list_ex (format_fails cfg e) names"
      using main_loop_aborts [of cfg e names "[]" "[Scanning (RAW_PL_DATA_FOLDER cfg)]"] Inr
      by auto
    from eq [OF this] show ?thesis by simp
  qed
  have "get_sample_id_from_filename f @ snd (splitext f) = f" for f
    using splitext_parts [of f] by (simp add: get_sample_id_from_filename_def)
  moreover have "get_sample_id_from_filename (stem @ ''.csv'')
               = (if list_ex (\<lambda>c. c \<noteq> CHR ''.'') stem then stem else stem @ ''.csv'')"
    if "CHR ''/'' \<notin> set stem" for stem
    using that by (simp add: get_sample_id_from_filename_def splitext_csv)
  ultimately show ?thesis using eq pre splitext_extension by auto
qed

theorem locator_and_sample_id_witness:
  "listdir sample_env (RAW_PL_DATA_FOLDER default_config)
     = Inr [''A.csv'', ''notes.txt'', ''B.csv'', ''C.csv'', ''D.csv'', ''E.csv'']
   \<and> \<not> list_ex (format_fails default_config sample_env)
         [''A.csv'', ''notes.txt'', ''B.csv'', ''C.csv'', ''D.csv'', ''E.csv'']
   \<and> processed (printed (main default_config sample_env))
     = [(''A.csv'', ''A''), (''B.csv'', ''B''), (''C.csv'', ''C''), (''D.csv'', ''D''),
        (''E.csv'', ''E'')]
   \<and> CHR ''/'' \<notin> set ''G25-023-center''
   \<and> get_sample_id_from_filename (''G25-023-center'' @ ''.csv'') = ''G25-023-center''"
proof -
  have l: "listdir sample_env (RAW_PL_DATA_FOLDER default_config)
     = Inr [''A.csv'', ''notes.txt'', ''B.csv'', ''C.csv'', ''D.csv'', ''E.csv'']"
    by code_simp
  have f: "map (\<lambda>f. (f, get_sample_id_from_filename f))
             (filter (\<lambda>f. endswith f ''.csv'')
                [''A.csv'', ''notes.txt'', ''B.csv'', ''C.csv'', ''D.csv'', ''E.csv''])
     = [(''A.csv'', ''A''), (''B.csv'', ''B''), (''C.csv'', ''C''), (''D.csv'', ''D''),
        (''E.csv'', ''E'')]"
    by code_simp
  have s: "CHR ''/'' \<notin> set ''G25-023-center''" by simp
  have n: "\<not> list_ex (format_fails default_config sample_env)
         [''A.csv'', ''notes.txt'', ''B.csv'', ''C.csv'', ''D.csv'', ''E.csv'']"
    by code_simp
  note t = locator_and_sample_id [OF l]
  have p: "processed (printed (main default_config sample_env))
     = [(''A.csv'', ''A''), (''B.csv'', ''B''), (''C.csv'', ''C''), (''D.csv'', ''D''),
        (''E.csv'', ''E'')]"
    unfolding f [symmetric] using t n by blast
  have "\<forall>stem. CHR ''/'' \<notin> set stem \<longrightarrow>
             get_sample_id_from_filename (stem @ ''.csv'')
               = (if list_ex (\<lambda>c. c \<noteq> CHR ''.'') stem then stem else stem @ ''.csv'')"
    using t by blast
  then have "get_sample_id_from_filename (''G25-023-center'' @ ''.csv'')
               = (if list_ex (\<lambda>c. c \<noteq> CHR ''.'') ''G25-023-center''
                  then ''G25-023-center'' else ''G25-023-center'' @ ''.csv'')"
    using s by blast
  then have g: "get_sample_id_from_filename (''G25-023-center'' @ ''.csv'') = ''G25-023-center''"
    by simp
  show ?thesis using l n p s g by blast
qed


subsection \<open>The writer\<close>

lemma prefix_before_dot:
  "CHR ''.'' \<notin> set u \<Longrightarrow> u \<noteq> [] \<Longrightarrow> prefix u (s @ CHR ''.'' # t) \<longleftrightarrow> prefix u s"
proof (induction u arbitrary: s)
  case Nil
  then show ?case by simp
next
  case (Cons a u)
  show ?case
  proof (cases s)
    case Nil
    then show ?thesis using Cons.prems by auto
  next
    case (Cons c s')
    show ?thesis
    proof (cases "u = []")
      case True
      then show ?thesis using Cons by simp
    next
      case False
      then show ?thesis using Cons.IH [of s'] Cons.prems Cons by simp
    qed
  qed
qed

lemma prefix_xlsx_append:
  "prefix ''.xlsx'' (s @ ''.xlsx'') \<longleftrightarrow> s = [] \<or> prefix ''.xlsx'' s"
proof (cases s)
  case Nil
  then show ?thesis by simp
next
  case (Cons c s')
  have "prefix ''xlsx'' (s' @ CHR ''.'' # ''xlsx'') \<longleftrightarrow> prefix ''xlsx'' s'"
    by (rule prefix_before_dot) simp_all
  then show ?thesis using Cons by simp
qed

lemma py_replace_xlsx_suffix:
  "py_replace (s @ ''.xlsx'') ''.xlsx'' ''.csv'' = py_replace s ''.xlsx'' ''.csv'' @ ''.csv''"
proof (induction s "''.xlsx''" "''.csv''" rule: py_replace.induct)
  case (1 s)
  show ?case
  proof (cases "s = []")
    case True
    then show ?thesis by (simp add: py_replace.simps)
  next
    case ne: False
    show ?thesis
    proof (cases "prefix ''.xlsx'' s")
      case True
      then have len: "5 \<le> length s" by (auto simp: prefix_def)
      have p: "prefix ''.xlsx'' (s @ ''.xlsx'')" using True by (simp add: prefix_xlsx_append)
      have ih: "py_replace (drop 5 s @ ''.xlsx'') ''.xlsx'' ''.csv''
                  = py_replace (drop 5 s) ''.xlsx'' ''.csv'' @ ''.csv''"
        using 1(1) ne True by (simp add: eval_nat_numeral)
      have "py_replace (s @ ''.xlsx'') ''.xlsx'' ''.csv''
              = ''.csv'' @ py_replace (drop 5 s @ ''.xlsx'') ''.xlsx'' ''.csv''"
        using p ne len by (subst py_replace.simps) (simp add: eval_nat_numeral)
      also have "\<dots> = (''.csv'' @ py_replace (drop 5 s) ''.xlsx'' ''.csv'') @ ''.csv''"
        using ih by simp
      also have "''.csv'' @ py_replace (drop 5 s) ''.xlsx'' ''.csv'' = py_replace s ''.xlsx'' ''.csv''"
        using True ne by (subst (2) py_replace.simps) (simp add: eval_nat_numeral)
      finally show ?thesis .
    next
      case False
      then have p: "\<not> prefix ''.xlsx'' (s @ ''.xlsx'')" using ne by (simp add: prefix_xlsx_append)
      have ih: "py_replace (tl s @ ''.xlsx'') ''.xlsx'' ''.csv''
                  = py_replace (tl s) ''.xlsx'' ''.csv'' @ ''.csv''"
        using 1(2) ne False by simp
      have "py_replace (s @ ''.xlsx'') ''.xlsx'' ''.csv''
              = hd s # py_replace (tl s @ ''.xlsx'') ''.xlsx'' ''.csv''"
        using p ne by (subst py_replace.simps) simp
      also have "\<dots> = (hd s # py_replace (tl s) ''.xlsx'' ''.csv'') @ ''.csv''"
        using ih by simp
      also have "hd s # py_replace (tl s) ''.xlsx'' ''.csv'' = py_replace s ''.xlsx'' ''.csv''"
        using False ne by (subst (2) py_replace.simps) simp
      finally show ?thesis .
    qed
  qed
qed

lemma py_replace_absent:
  "old \<noteq> [] \<Longrightarrow> \<not> py_in old s \<Longrightarrow> py_replace s old new = s"
proof (induction s)
  case Nil
  then show ?case by (simp add: py_replace.simps)
next
  case (Cons c s)
  then show ?case by (subst py_replace.simps) simp
qed

text \<open>
  Claim C7. With every file processed (line 120 raises at no entry), the file type
  \<^verbatim>\<open>excel\<close>, at least one row, and a \<^verbatim>\<open>to_excel\<close> that
  raises \<^verbatim>\<open>ImportError\<close>: the program prints the error, calls \<^verbatim>\<open>to_csv\<close> with the same
  table at the path it gets from the configured one by \<^verbatim>\<open>replace('.xlsx', '.csv')\<close>, and
  the \<^verbatim>\<open>ImportError\<close> goes no further: the run ends as this \<^verbatim>\<open>to_csv\<close> ends, and when
  it succeeds the program prints that the table was saved to that path instead. For a
  configured path \<open>stem @ ''.xlsx''\<close> the path of the fallback ends with \<^verbatim>\<open>.csv\<close> in place
  of \<^verbatim>\<open>.xlsx\<close>; it is \<open>stem @ ''.csv''\<close> when \<^verbatim>\<open>.xlsx\<close> does not occur in the stem (an
  occurrence there is replaced as well).
\<close>

theorem excel_fallback:
  assumes "OUTPUT_FILE_TYPE cfg = ''excel''"
    and "to_excel_raises e (OUTPUT_PEAK_DATA_FILE cfg) = Some ImportError"
    and "listdir e (RAW_PL_DATA_FOLDER cfg) = Inr names"
    and "\<not> list_ex (format_fails cfg e) names"
    and "rows = List.map_filter (peak_row cfg e) (filter (\<lambda>f. endswith f ''.csv'') names)"
    and "rows \<noteq> []"
    and "tbl = \<lparr>columns = [''QW_Sample'', ''PL_Peak_Wavelength_nm'', ''PL_Peak_Intensity_au''],
               records = map (map (Some \<circ> snd)) rows\<rparr>"
    and "csv_path = py_replace (OUTPUT_PEAK_DATA_FILE cfg) ''.xlsx'' ''.csv''"
  shows "write_calls (main cfg e)
           = [To_excel (OUTPUT_PEAK_DATA_FILE cfg) tbl ''PL_Peaks'', To_csv csv_path tbl]
       \<and> Error_openpyxl \<in> set (printed (main cfg e))
       \<and> raised (main cfg e) = to_csv_raises e csv_path
       \<and> (to_csv_raises e csv_path = None
            \<longrightarrow> Saved_to_csv_instead csv_path \<in> set (printed (main cfg e)))
       \<and> (\<forall>stem. OUTPUT_PEAK_DATA_FILE cfg = stem @ ''.xlsx''
            \<longrightarrow> csv_path = py_replace stem ''.xlsx'' ''.csv'' @ ''.csv'')
       \<and> (\<forall>stem. OUTPUT_PEAK_DATA_FILE cfg = stem @ ''.xlsx'' \<and> \<not> py_in ''.xlsx'' stem
            \<longrightarrow> csv_path = stem @ ''.csv'')"
proof -
  from main_loop_result [OF assms(4), of "[]" "[Scanning (RAW_PL_DATA_FOLDER cfg)]"]
  obtain out where
    l: "main_loop cfg e names ([], [Scanning (RAW_PL_DATA_FOLDER cfg)]) = Inr (rows, out)"
    unfolding assms(5) by auto
  have t: "DataFrame rows = tbl"
    unfolding assms(7) using assms(5,6) by (rule DataFrame_peak_rows)
  have m: "write_calls (main cfg e)
           = [To_excel (OUTPUT_PEAK_DATA_FILE cfg) tbl ''PL_Peaks'', To_csv csv_path tbl]
       \<and> Error_openpyxl \<in> set (printed (main cfg e))
       \<and> raised (main cfg e) = to_csv_raises e csv_path
       \<and> (to_csv_raises e csv_path = None
            \<longrightarrow> Saved_to_csv_instead csv_path \<in> set (printed (main cfg e)))"
    using assms(1,2,3,6,8) l t
    by (cases "to_csv_raises e csv_path") (simp_all add: main_def Let_def)
  have p1: "csv_path = py_replace stem ''.xlsx'' ''.csv'' @ ''.csv''"
    if "OUTPUT_PEAK_DATA_FILE cfg = stem @ ''.xlsx''" for stem
    unfolding assms(8) that by (rule py_replace_xlsx_suffix)
  have p2: "csv_path = stem @ ''.csv''"
    if "OUTPUT_PEAK_DATA_FILE cfg = stem @ ''.xlsx'' \<and> \<not> py_in ''.xlsx'' stem" for stem
    using p1 [of stem] that py_replace_absent [of "''.xlsx''" stem "''.csv''"] by simp
  show ?thesis using m p1 p2 by blast
qed

theorem excel_fallback_witness:
  "OUTPUT_FILE_TYPE excel_config = ''excel''
   \<and> to_excel_raises sample_env (OUTPUT_PEAK_DATA_FILE excel_config) = Some ImportError
   \<and> listdir sample_env (RAW_PL_DATA_FOLDER excel_config)
       = Inr [''A.csv'', ''notes.txt'', ''B.csv'', ''C.csv'', ''D.csv'', ''E.csv'']
   \<and> \<not> list_ex (format_fails excel_config sample_env)
         [''A.csv'', ''notes.txt'', ''B.csv'', ''C.csv'', ''D.csv'', ''E.csv'']
   \<and> [peak_dict ''A'' 510 55.2, peak_dict ''E'' 500 99]
       = List.map_filter (peak_row excel_config sample_env)
           (filter (\<lambda>f. endswith f ''.csv'')
              [''A.csv'', ''notes.txt'', ''B.csv'', ''C.csv'', ''D.csv'', ''E.csv''])
   \<and> ''peaks.csv'' = py_replace (OUTPUT_PEAK_DATA_FILE excel_config) ''.xlsx'' ''.csv''
   \<and> write_calls (main excel_config sample_env)
       = [To_excel ''peaks.xlsx''
            \<lparr>columns = [''QW_Sample'', ''PL_Peak_Wavelength_nm'', ''PL_Peak_Intensity_au''],
             records = [[Some (Str ''A''), Some (Num 510), Some (Num 55.2)],
                        [Some (Str ''E''), Some (Num 500), Some (Num 99)]]\<rparr>
            ''PL_Peaks'',
          To_csv ''peaks.csv''
            \<lparr>columns = [''QW_Sample'', ''PL_Peak_Wavelength_nm'', ''PL_Peak_Intensity_au''],
             records = [[Some (Str ''A''), Some (Num 510), Some (Num 55.2)],
                        [Some (Str ''E''), Some (Num 500), Some (Num 99)]]\<rparr>]
   \<and> to_csv_raises sample_env ''peaks.csv'' = None
   \<and> raised (main excel_config sample_env) = None
   \<and> Error_openpyxl \<in> set (printed (main excel_config sample_env))
   \<and> Saved_to_csv_instead ''peaks.csv'' \<in> set (printed (main excel_config sample_env))"
proof -
  have a: "OUTPUT_FILE_TYPE excel_config = ''excel''" by code_simp
  have b: "to_excel_raises sample_env (OUTPUT_PEAK_DATA_FILE excel_config) = Some ImportError"
    by code_simp
  have l: "listdir sample_env (RAW_PL_DATA_FOLDER excel_config)
       = Inr [''A.csv'', ''notes.txt'', ''B.csv'', ''C.csv'', ''D.csv'', ''E.csv'']"
    by code_simp
  have r: "[peak_dict ''A'' 510 55.2, peak_dict ''E'' 500 99]
       = List.map_filter (peak_row excel_config sample_env)
           (filter (\<lambda>f. endswith f ''.csv'')
              [''A.csv'', ''notes.txt'', ''B.csv'', ''C.csv'', ''D.csv'', ''E.csv''])"
    by code_simp
  have nf: "\<not> list_ex (format_fails excel_config sample_env)
         [''A.csv'', ''notes.txt'', ''B.csv'', ''C.csv'', ''D.csv'', ''E.csv'']"
    by code_simp
  have n: "[peak_dict ''A'' 510 55.2, peak_dict ''E'' (500 :: real) 99] \<noteq> []" by simp
  have p: "''peaks.csv'' = py_replace (OUTPUT_PEAK_DATA_FILE excel_config) ''.xlsx'' ''.csv''"
    by code_simp
  have c: "to_csv_raises sample_env ''peaks.csv'' = None" by (simp add: sample_env_def)
  have o: "OUTPUT_PEAK_DATA_FILE excel_config = ''peaks.xlsx''" by code_simp
  note t = excel_fallback [OF a b l nf r n refl p]
  have w: "write_calls (main excel_config sample_env)
       = [To_excel ''peaks.xlsx''
            \<lparr>columns = [''QW_Sample'', ''PL_Peak_Wavelength_nm'', ''PL_Peak_Intensity_au''],
             records = [[Some (Str ''A''), Some (Num 510), Some (Num 55.2)],
                        [Some (Str ''E''), Some (Num 500), Some (Num 99)]]\<rparr>
            ''PL_Peaks'',
          To_csv ''peaks.csv''
            \<lparr>columns = [''QW_Sample'', ''PL_Peak_Wavelength_nm'', ''PL_Peak_Intensity_au''],
             records = [[Some (Str ''A''), Some (Num 510), Some (Num 55.2)],
                        [Some (Str ''E''), Some (Num 500), Some (Num 99)]]\<rparr>]"
    using t by (simp add: peak_dict_def o)
  have x: "raised (main excel_config sample_env) = None"
    "Error_openpyxl \<in> set (printed (main excel_config sample_env))"
    "Saved_to_csv_instead ''peaks.csv'' \<in> set (printed (main excel_config sample_env))"
    using t c by simp_all
  show ?thesis using a b l nf r p c w x by blast
qed


subsection \<open>What ends the run\<close>

text \<open>
  Claim C8, as stated, does not hold: the calls of the writers at lines 132, 135 and 138
  stand in no \<^verbatim>\<open>try\<close> that would catch what they raise (line 136 catches
  \<^verbatim>\<open>ImportError\<close> only). In the sample folder the directory is listed and two peaks are
  extracted, and the exception of \<^verbatim>\<open>to_csv\<close> ends the run.
\<close>

theorem write_failure_propagates:
  "listdir unwritable_env (RAW_PL_DATA_FOLDER default_config)
     = Inr [''A.csv'', ''notes.txt'', ''B.csv'', ''C.csv'', ''D.csv'', ''E.csv'']
   \<and> raised (main default_config unwritable_env) = Some (OtherError ''Permission denied'')"
  by code_simp

text \<open>
  Claim C8, amended. An exception of the directory listing ends the run at once: no file
  is processed and no writer is called. When the listing succeeds and every file is
  processed (line 120 raises at no entry), no failure of a file ends the run; the run ends
  with an exception exactly when there is a row to write and the writer raises: \<^verbatim>\<open>to_csv\<close> for the file type \<^verbatim>\<open>csv\<close>; for \<^verbatim>\<open>excel\<close>,
  \<^verbatim>\<open>to_excel\<close> with anything but \<^verbatim>\<open>ImportError\<close>, or the \<^verbatim>\<open>to_csv\<close> of the fallback
  after an \<^verbatim>\<open>ImportError\<close>.
\<close>

theorem fatal_failures:
  "(\<forall>x. listdir e (RAW_PL_DATA_FOLDER cfg) = Inl x \<longrightarrow>
          raised (main cfg e) = Some x \<and> write_calls (main cfg e) = []
          \<and> processed (printed (main cfg e)) = [])
   \<and> (\<forall>names rows.
          listdir e (RAW_PL_DATA_FOLDER cfg) = Inr names
          \<and> \<not> list_ex (format_fails cfg e) names
          \<and> rows = List.map_filter (peak_row cfg e) (filter (\<lambda>f. endswith f ''.csv'') names)
          \<longrightarrow> raised (main cfg e)
                = (if rows = [] then None
                   else if OUTPUT_FILE_TYPE cfg = ''csv''
                     then to_csv_raises e (OUTPUT_PEAK_DATA_FILE cfg)
                   else if OUTPUT_FILE_TYPE cfg = ''excel''
                     then (case to_excel_raises e (OUTPUT_PEAK_DATA_FILE cfg) of
                             None \<Rightarrow> None
                           | Some ImportError \<Rightarrow>
                               to_csv_raises e
                                 (py_replace (OUTPUT_PEAK_DATA_FILE cfg) ''.xlsx'' ''.csv'')
                           | Some x \<Rightarrow> Some x)
                   else None))"
proof -
  have first: "raised (main cfg e) = Some x \<and> write_calls (main cfg e) = []
          \<and> processed (printed (main cfg e)) = []"
    if "listdir e (RAW_PL_DATA_FOLDER cfg) = Inl x" for x
    using that by (simp add: main_def)
  have second: "raised (main cfg e)
                = (if rows = [] then None
                   else if OUTPUT_FILE_TYPE cfg = ''csv''
                     then to_csv_raises e (OUTPUT_PEAK_DATA_FILE cfg)
                   else if OUTPUT_FILE_TYPE cfg = ''excel''
                     then (case to_excel_raises e (OUTPUT_PEAK_DATA_FILE cfg) of
                             None \<Rightarrow> None
                           | Some ImportError \<Rightarrow>
                               to_csv_raises e
                                 (py_replace (OUTPUT_PEAK_DATA_FILE cfg) ''.xlsx'' ''.csv'')
                           | Some x \<Rightarrow> Some x)
                   else None)"
    if a: "listdir e (RAW_PL_DATA_FOLDER cfg) = Inr names
          \<and> \<not> list_ex (format_fails cfg e) names
          \<and> rows = List.map_filter (peak_row cfg e) (filter (\<lambda>f. endswith f ''.csv'') names)"
    for names rows
  proof -
    have nf: "\<not> list_ex (format_fails cfg e) names" using a by blast
    from main_loop_result [OF nf, of "[]" "[Scanning (RAW_PL_DATA_FOLDER cfg)]"]
    obtain out where
      l: "main_loop cfg e names ([], [Scanning (RAW_PL_DATA_FOLDER cfg)]) = Inr (rows, out)"
      using a by auto
    show ?thesis
      using a l by (auto simp: main_def Let_def split: option.splits exn.splits)
  qed
  show ?thesis using first second by blast
qed

theorem fatal_failures_witness:
  "listdir unlistable_env (RAW_PL_DATA_FOLDER default_config) = Inl FileNotFoundError
   \<and> raised (main default_config unlistable_env) = Some FileNotFoundError
   \<and> write_calls (main default_config unlistable_env) = []
   \<and> processed (printed (main default_config unlistable_env)) = []
   \<and> listdir unwritable_env (RAW_PL_DATA_FOLDER default_config)
       = Inr [''A.csv'', ''notes.txt'', ''B.csv'', ''C.csv'', ''D.csv'', ''E.csv'']
   \<and> \<not> list_ex (format_fails default_config unwritable_env)
         [''A.csv'', ''notes.txt'', ''B.csv'', ''C.csv'', ''D.csv'', ''E.csv'']
   \<and> [peak_dict ''A'' 510 55.2, peak_dict ''E'' 500 99]
       = List.map_filter (peak_row default_config unwritable_env)
           (filter (\<lambda>f. endswith f ''.csv'')
              [''A.csv'', ''notes.txt'', ''B.csv'', ''C.csv'', ''D.csv'', ''E.csv''])
   \<and> raised (main default_config unwritable_env)
       = to_csv_raises unwritable_env (OUTPUT_PEAK_DATA_FILE default_config)"
proof -
  have l0: "listdir unlistable_env (RAW_PL_DATA_FOLDER default_config) = Inl FileNotFoundError"
    by code_simp
  have l: "listdir unwritable_env (RAW_PL_DATA_FOLDER default_config)
       = Inr [''A.csv'', ''notes.txt'', ''B.csv'', ''C.csv'', ''D.csv'', ''E.csv'']"
    by code_simp
  have n: "\<not> list_ex (format_fails default_config unwritable_env)
         [''A.csv'', ''notes.txt'', ''B.csv'', ''C.csv'', ''D.csv'', ''E.csv'']"
    by code_simp
  have r: "[peak_dict ''A'' 510 55.2, peak_dict ''E'' 500 99]
       = List.map_filter (peak_row default_config unwritable_env)
           (filter (\<lambda>f. endswith f ''.csv'')
              [''A.csv'', ''notes.txt'', ''B.csv'', ''C.csv'', ''D.csv'', ''E.csv''])"
    by code_simp
  have c: "OUTPUT_FILE_TYPE default_config = ''csv''" by code_simp
  note t0 = fatal_failures [of unlistable_env default_config, THEN conjunct1, rule_format, OF l0]
  note t1 = fatal_failures [of unwritable_env default_config, THEN conjunct2, rule_format,
      OF conjI [OF l conjI [OF n r]]]
  have x: "raised (main default_config unwritable_env)
       = to_csv_raises unwritable_env (OUTPUT_PEAK_DATA_FILE default_config)"
    using t1 c by (simp add: peak_dict_def)
  show ?thesis using l0 t0 l n r x by blast
qed

end
